theory Spec2Isabelle
  imports Main "HOL-Library.Sublist"
begin

section \<open>Python string primitives used by the patch scripts\<close>

text \<open>
  A text is a list of characters, and a character is a code point below 256: texts with
  other code points are outside the type.
\<close>

abbreviation TAB :: string where
  "TAB \<equiv> [CHR 0x09]"

text \<open>
  Python's \<^verbatim>\<open>sub in s\<close> on strings: \<open>sub\<close> occurs in \<open>s\<close> as a contiguous run of
  characters. The empty string occurs in every string.
\<close>

fun str_in :: "string \<Rightarrow> string \<Rightarrow> bool" where
  "str_in sub [] = (sub = [])"
| "str_in sub (c # cs) = (prefix sub (c # cs) \<or> str_in sub cs)"

text \<open>
  Python's \<^verbatim>\<open>s.replace(old, new)\<close>: every occurrence of \<open>old\<close>, found from the left and
  without overlap, is replaced by \<open>new\<close>. With an empty \<open>old\<close>, \<open>new\<close> is inserted before
  every character and at the end.
\<close>

function replace_from :: "string \<Rightarrow> string \<Rightarrow> string \<Rightarrow> string" where
  "replace_from old new [] = []"
| "replace_from old new (c # cs) =
     (if old \<noteq> [] \<and> prefix old (c # cs)
      then new @ replace_from old new (drop (length old) (c # cs))
      else c # replace_from old new cs)"
  by pat_completeness auto
termination
  by (relation "measure (\<lambda>(old, new, s). length s)") auto

definition replace :: "string \<Rightarrow> string \<Rightarrow> string \<Rightarrow> string" where
  "replace old new s =
     (if old = [] then new @ concat (map (\<lambda>c. c # new) s) else replace_from old new s)"

text \<open>
  A file opened in text mode with the default \<^verbatim>\<open>newline=None\<close> is read with universal
  newlines: \<^verbatim>\<open>\r\n\<close> and a lone \<^verbatim>\<open>\r\<close> both arrive as \<^verbatim>\<open>\n\<close>.
\<close>

fun universal_newlines :: "string \<Rightarrow> string" where
  "universal_newlines [] = []"
| "universal_newlines [c] = (if c = CHR 0x0D then [CHR 0x0A] else [c])"
| "universal_newlines (c # d # cs) =
     (if c = CHR 0x0D \<and> d = CHR 0x0A then CHR 0x0A # universal_newlines cs
      else if c = CHR 0x0D then CHR 0x0A # universal_newlines (d # cs)
      else c # universal_newlines (d # cs))"

text \<open>
  \<^verbatim>\<open>readlines()\<close> cuts the text after every \<^verbatim>\<open>\n\<close> and keeps the terminator on each
  line; a last line without terminator is kept as it is. \<^verbatim>\<open>writelines\<close> writes the lines
  one after the other.
\<close>

fun split_lines :: "string \<Rightarrow> string \<Rightarrow> string list" where
  "split_lines cur [] = (if cur = [] then [] else [cur])"
| "split_lines cur (c # cs) =
     (if c = CHR 0x0A then (cur @ [c]) # split_lines [] cs else split_lines (cur @ [c]) cs)"

definition readlines :: "string \<Rightarrow> string list" where
  "readlines content = split_lines [] content"

definition writelines :: "string list \<Rightarrow> string" where
  "writelines ls = concat ls"

section \<open>Files, output and uncaught exceptions\<close>

text \<open>
  The scripts act on files at fixed paths, print to standard output and stop with a
  traceback when an \<^verbatim>\<open>open\<close> for reading fails. A world holds the text of every file
  that exists, the log of file operations in the order they happened, and the lines
  printed so far. Opening a file for writing truncates it (or creates it); the data is
  written afterwards, so a write is two operations (the data is taken to arrive in one
  piece). The only failure of \<^verbatim>\<open>open\<close> that is modelled is a missing file on reading:
  the directories of the fixed paths are taken to exist and to be writable, and file
  contents to be text in the default encoding.
\<close>

type_synonym path = string

datatype io_event = OpenRead path | OpenWrite path | WriteData path string

datatype py_error = FileNotFoundError path

text \<open>The exceptions that the code below can raise besides a failed \<^verbatim>\<open>open\<close>.\<close>

datatype py_exception = TypeError | ValueError | IndexError | UnicodeDecodeError string

record world =
  files :: "path \<rightharpoonup> string"
  events :: "io_event list"
  stdout :: "string list"

definition read_file :: "path \<Rightarrow> world \<Rightarrow> py_error + (string \<times> world)" where
  "read_file p w =
     (case files w p of
        None \<Rightarrow> Inl (FileNotFoundError p)
      | Some text \<Rightarrow> Inr (universal_newlines text, w\<lparr>events := events w @ [OpenRead p]\<rparr>))"

definition write_file :: "path \<Rightarrow> string \<Rightarrow> world \<Rightarrow> world" where
  "write_file p text w =
     w\<lparr>files := (files w)(p \<mapsto> text), events := events w @ [OpenWrite p, WriteData p text]\<rparr>"

definition py_print :: "string \<Rightarrow> world \<Rightarrow> world" where
  "py_print line w = w\<lparr>stdout := stdout w @ [line]\<rparr>"

text \<open>
  The effect of one logged operation on the stored files, and the files as they are
  when a run is cut off after its first \<open>k\<close> operations.
\<close>

fun apply_event :: "io_event \<Rightarrow> (path \<rightharpoonup> string) \<Rightarrow> (path \<rightharpoonup> string)" where
  "apply_event (OpenRead p) fs = fs"
| "apply_event (OpenWrite p) fs = fs(p \<mapsto> [])"
| "apply_event (WriteData p d) fs = fs(p \<mapsto> (case fs p of None \<Rightarrow> d | Some text \<Rightarrow> text @ d))"

definition disk_after :: "nat \<Rightarrow> io_event list \<Rightarrow> (path \<rightharpoonup> string) \<Rightarrow> (path \<rightharpoonup> string)" where
  "disk_after k evs fs = foldl (\<lambda>f e. apply_event e f) fs (take k evs)"

text \<open>
  A run either returns, or stops at an uncaught exception; what it has written and
  printed until then stays. A script that ends normally exits with code 0 and leaves the
  error stream empty; an uncaught exception prints its traceback on the error stream and
  exits with code 1. Of the traceback, the last line is kept, which names the exception.
\<close>

datatype run_result = Returned world | Raised py_error world

definition exit_code :: "run_result \<Rightarrow> int" where
  "exit_code r = (case r of Returned w \<Rightarrow> 0 | Raised e w \<Rightarrow> 1)"

definition stderr :: "run_result \<Rightarrow> string list" where
  "stderr r =
     (case r of
        Returned w \<Rightarrow> []
      | Raised (FileNotFoundError p) w \<Rightarrow>
          [''FileNotFoundError: [Errno 2] No such file or directory: '' @
           [CHR 0x27] @ p @ [CHR 0x27]])"

definition final_world :: "run_result \<Rightarrow> world" where
  "final_world r = (case r of Returned w \<Rightarrow> w | Raised e w \<Rightarrow> w)"

text \<open>The file operations of one run, in order, and the files a run leaves.\<close>

definition run_events :: "(world \<Rightarrow> run_result) \<Rightarrow> world \<Rightarrow> io_event list" where
  "run_events script w = drop (length (events w)) (events (final_world (script w)))"

definition final_files :: "(world \<Rightarrow> run_result) \<Rightarrow> world \<Rightarrow> (path \<rightharpoonup> string)" where
  "final_files script w = files (final_world (script w))"

section \<open>fix\_port.py\<close>

definition fix_port_path :: path where
  "fix_port_path = ''/opt/oonrumail/app/services/transactional-api/config.yaml''"

text \<open>Line 8.\<close>

definition fix_port_text :: "string \<Rightarrow> string" where
  \<open>fix_port_text content = replace ''addr: ":8080"'' ''addr: ":${PORT}"'' content\<close>

definition fix_port :: "world \<Rightarrow> run_result" where
  "fix_port w =
     (case read_file fix_port_path w of
        Inl e \<Rightarrow> Raised e w
      | Inr (content, w1) \<Rightarrow>
          let content = fix_port_text content;
              w2 = write_file fix_port_path content w1
          in Returned (py_print ''Fixed!'' w2))"

section \<open>scripts/fix\_calendar2.py\<close>

definition fix_calendar2_path :: path where
  "fix_calendar2_path = ''/opt/oonrumail/app/services/calendar/service/calendar.go''"

definition old_reminder_fields :: string where
  "old_reminder_fields =
     ''reminders[i] = &models.Reminder{\<newline>'' @
     TAB @ TAB @ TAB @ TAB @ ''ID:       uuid.New(),\<newline>'' @
     TAB @ TAB @ TAB @ TAB @ ''EventID:  event.ID,\<newline>'' @
     TAB @ TAB @ TAB @ TAB @ ''Action:   r.Action,\<newline>'' @
     TAB @ TAB @ TAB @ TAB @ ''Trigger:  r.Trigger,\<newline>'' @
     TAB @ TAB @ TAB @ TAB @ ''Duration: r.Duration,\<newline>'' @
     TAB @ TAB @ TAB @ ''}''"

definition new_reminder_fields :: string where
  "new_reminder_fields =
     ''reminders[i] = &models.Reminder{\<newline>'' @
     TAB @ TAB @ TAB @ TAB @ ''ID:       uuid.New(),\<newline>'' @
     TAB @ TAB @ TAB @ TAB @ ''EventID:  event.ID,\<newline>'' @
     TAB @ TAB @ TAB @ TAB @ ''Method:   r.Method,\<newline>'' @
     TAB @ TAB @ TAB @ TAB @ ''Minutes:  r.Minutes,\<newline>'' @
     TAB @ TAB @ TAB @ ''}''"

text \<open>Lines 7 to 21.\<close>

definition fix_calendar2_text :: "string \<Rightarrow> string" where
  "fix_calendar2_text content = replace old_reminder_fields new_reminder_fields content"

definition fix_calendar2 :: "world \<Rightarrow> run_result" where
  "fix_calendar2 w =
     (case read_file fix_calendar2_path w of
        Inl e \<Rightarrow> Raised e w
      | Inr (content, w1) \<Rightarrow>
          let content = fix_calendar2_text content;
              w2 = write_file fix_calendar2_path content w1
          in Returned (py_print ''Fixed Reminder field names'' w2))"

section \<open>scripts/fix\_calendar5.py, the replacements on notification.go\<close>

text \<open>Lines 48 to 52: the five replacements on the text of \<^verbatim>\<open>notification.go\<close>.\<close>

definition fix_calendar5_notification :: "string \<Rightarrow> string" where
  "fix_calendar5_notification content =
     (let content = replace ''s.config.Notifications'' ''s.config.Notification'' content;
          content = replace ''s.config.SMTP.Host'' ''s.config.Notification.SMTPHost'' content;
          content = replace ''s.config.SMTP.Port'' ''s.config.Notification.SMTPPort'' content;
          content = replace ''s.config.SMTP.From'' ''s.config.Notification.FromEmail'' content;
          content = replace ''s.config.SMTP'' ''s.config.Notification'' content
      in content)"

text \<open>
  The order the specification asks for, for rules that replace one literal by another:
  the rules are taken in the order of the list, and each is applied to the buffer that
  the rules before it have left.
\<close>

fun apply_in_order :: "(string \<times> string) list \<Rightarrow> string \<Rightarrow> string" where
  "apply_in_order [] buffer = buffer"
| "apply_in_order ((old, new) # rules) buffer = apply_in_order rules (replace old new buffer)"

text \<open>The rules of lines 48 to 52, in the order of the lines.\<close>

definition notification_rules :: "(string \<times> string) list" where
  "notification_rules =
     [(''s.config.Notifications'', ''s.config.Notification''),
      (''s.config.SMTP.Host'', ''s.config.Notification.SMTPHost''),
      (''s.config.SMTP.Port'', ''s.config.Notification.SMTPPort''),
      (''s.config.SMTP.From'', ''s.config.Notification.FromEmail''),
      (''s.config.SMTP'', ''s.config.Notification'')]"

section \<open>scripts/fix\_webhook.py\<close>

definition new_block_1 :: "string list" where
  "new_block_1 =
     [TAB @ ''payload := &models.WebhookPayload{\<newline>'',
      TAB @ TAB @ ''Event:      models.WebhookEventType(event.EventType),\<newline>'',
      TAB @ TAB @ ''Timestamp:   event.Timestamp,\<newline>'',
      TAB @ TAB @ ''MessageID:   event.MessageID.String(),\<newline>'',
      TAB @ TAB @ ''Recipient:   event.Recipient,\<newline>'',
      TAB @ TAB @ ''UserAgent:   event.UserAgent,\<newline>'',
      TAB @ TAB @ ''IPAddress:   event.IPAddress,\<newline>'',
      TAB @ TAB @ ''URL:         event.URL,\<newline>'',
      TAB @ TAB @ ''BounceType:  event.BounceType,\<newline>'',
      TAB @ TAB @ ''BounceCode:  event.BounceReason,\<newline>'',
      TAB @ ''}\<newline>'',
      ''\<newline>'']"

definition new_block_2 :: "string list" where
  \<open>new_block_2 =
     [TAB @ ''testPayload := &models.WebhookPayload{\<newline>'',
      TAB @ TAB @ ''Event:     "test",\<newline>'',
      TAB @ TAB @ ''Timestamp: time.Now(),\<newline>'',
      TAB @ TAB @ ''MessageID: uuid.New().String(),\<newline>'',
      TAB @ TAB @ ''Recipient: "test@example.com",\<newline>'',
      TAB @ TAB @ ''Reason:    "This is a test webhook delivery",\<newline>'',
      TAB @ ''}\<newline>'']\<close>

text \<open>
  Line 26, \<^verbatim>\<open>lines[140:158] = new_block_1\<close>. A Python slice clamps its bounds to the
  length of the list, as \<open>take\<close> and \<open>drop\<close> do.
\<close>

definition fix_webhook_fix1 :: "string list \<Rightarrow> string list" where
  "fix_webhook_fix1 ls = take 140 ls @ new_block_1 @ drop 158 ls"

text \<open>Lines 35 to 39: the brace depth after the characters of one line.\<close>

fun brace_depth_after :: "int \<Rightarrow> string \<Rightarrow> int" where
  "brace_depth_after brace_depth [] = brace_depth"
| "brace_depth_after brace_depth (ch # rest) =
     (if ch = CHR ''{'' then brace_depth_after (brace_depth + 1) rest
      else if ch = CHR ''}'' then brace_depth_after (brace_depth - 1) rest
      else brace_depth_after brace_depth rest)"

text \<open>
  Lines 34 to 42, over the lines from index \<open>j\<close> on: how far \<open>j\<close> advances before the
  loop stops, at the first line after which the depth is 0 or at the end of the list.
\<close>

fun lines_to_closing_brace :: "int \<Rightarrow> string list \<Rightarrow> nat" where
  "lines_to_closing_brace brace_depth [] = 0"
| "lines_to_closing_brace brace_depth (l # rest) =
     (let brace_depth = brace_depth_after brace_depth l
      in if brace_depth = 0 then 0 else Suc (lines_to_closing_brace brace_depth rest))"

text \<open>
  Lines 29 to 55, over the lines from index \<open>i\<close> on. At the first line containing the
  marker, \<open>j\<close> ends at \<open>i + 1\<close> plus the advance above plus 1, and
  \<^verbatim>\<open>lines[i:j] = new_block_2\<close> replaces that stretch; the loop then stops. The
  \<^verbatim>\<open>print\<close> of line 54 does not change the lines and is left out.
\<close>

fun fix_webhook_fix2 :: "string list \<Rightarrow> string list" where
  "fix_webhook_fix2 [] = []"
| "fix_webhook_fix2 (line # rest) =
     (if str_in ''testPayload := &models.WebhookPayload{'' line
      then new_block_2 @ drop (lines_to_closing_brace 1 rest + 1) rest
      else line # fix_webhook_fix2 rest)"

definition fix_webhook_lines :: "string list \<Rightarrow> string list" where
  "fix_webhook_lines ls = (let ls = fix_webhook_fix1 ls in fix_webhook_fix2 ls)"

text \<open>The text written by line 58 from the text read by line 6.\<close>

definition fix_webhook_text :: "string \<Rightarrow> string" where
  "fix_webhook_text text = writelines (fix_webhook_lines (readlines (universal_newlines text)))"

section \<open>scripts/fix\_handlers.py, Fix 1\<close>

definition supp_path :: path where
  "supp_path = ''/opt/oonrumail/app/services/transactional-api/models/suppression.go''"

definition add_suppression_request :: string where
  \<open>add_suppression_request =
     ''\<newline>'' @
     ''\<newline>'' @
     ''// AddSuppressionRequest is the request to add a suppression entry\<newline>'' @
     ''type AddSuppressionRequest struct {\<newline>'' @
     TAB @ ''Email  string `json:"email" validate:"required,email"`\<newline>'' @
     TAB @ ''Reason string `json:"reason,omitempty"`\<newline>'' @
     ''}\<newline>''\<close>

text \<open>Lines 6 to 23. The file is written only in the branch that appends.\<close>

definition fix_handlers_suppression :: "world \<Rightarrow> run_result" where
  "fix_handlers_suppression w =
     (case read_file supp_path w of
        Inl e \<Rightarrow> Raised e w
      | Inr (content, w1) \<Rightarrow>
          if \<not> str_in ''AddSuppressionRequest'' content then
            let content = content @ add_suppression_request;
                w2 = write_file supp_path content w1
            in Returned (py_print ''Added AddSuppressionRequest to suppression.go'' w2)
          else Returned (py_print ''AddSuppressionRequest already exists'' w1))"

section \<open>scripts/fix\_calendar.py, the service file (lines 65 to 141)\<close>

definition svc_path :: path where
  "svc_path = ''/opt/oonrumail/app/services/calendar/service/calendar.go''"

definition old_reminder :: string where
  "old_reminder =
     ''if err := s.reminderRepo.BulkCreate(ctx, event.ID, req.Reminders); err != nil {''"

definition new_reminder :: string where
  "new_reminder =
     ''reminders := make([]*models.Reminder, len(req.Reminders))\<newline>'' @
     TAB @ TAB @ ''for i, r := range req.Reminders {\<newline>'' @
     TAB @ TAB @ TAB @ ''reminders[i] = &models.Reminder{\<newline>'' @
     TAB @ TAB @ TAB @ TAB @ ''ID:       uuid.New(),\<newline>'' @
     TAB @ TAB @ TAB @ TAB @ ''EventID:  event.ID,\<newline>'' @
     TAB @ TAB @ TAB @ TAB @ ''Action:   r.Action,\<newline>'' @
     TAB @ TAB @ TAB @ TAB @ ''Trigger:  r.Trigger,\<newline>'' @
     TAB @ TAB @ TAB @ TAB @ ''Duration: r.Duration,\<newline>'' @
     TAB @ TAB @ TAB @ ''}\<newline>'' @
     TAB @ TAB @ ''}\<newline>'' @
     TAB @ TAB @ ''if err := s.reminderRepo.BulkCreate(ctx, event.ID, reminders); err != nil {''"

definition old_attendee :: string where
  "old_attendee =
     ''if err := s.attendeeRepo.BulkCreate(ctx, event.ID, req.Attendees); err != nil {''"

definition new_attendee :: string where
  \<open>new_attendee =
     ''attendees := make([]*models.Attendee, len(req.Attendees))\<newline>'' @
     TAB @ TAB @ TAB @ ''for i, a := range req.Attendees {\<newline>'' @
     TAB @ TAB @ TAB @ TAB @ ''attendees[i] = &models.Attendee{\<newline>'' @
     TAB @ TAB @ TAB @ TAB @ TAB @ ''ID:      uuid.New(),\<newline>'' @
     TAB @ TAB @ TAB @ TAB @ TAB @ ''EventID: event.ID,\<newline>'' @
     TAB @ TAB @ TAB @ TAB @ TAB @ ''Email:   a.Email,\<newline>'' @
     TAB @ TAB @ TAB @ TAB @ TAB @ ''Name:    a.Name,\<newline>'' @
     TAB @ TAB @ TAB @ TAB @ TAB @ ''Role:    a.Role,\<newline>'' @
     TAB @ TAB @ TAB @ TAB @ TAB @ ''Status:  "needs-action",\<newline>'' @
     TAB @ TAB @ TAB @ TAB @ ''}\<newline>'' @
     TAB @ TAB @ TAB @ ''}\<newline>'' @
     TAB @ TAB @ TAB @ ''if err := s.attendeeRepo.BulkCreate(ctx, event.ID, attendees); err != nil {''\<close>

text \<open>Lines 87 to 125: the five replacements applied before the first write.\<close>

definition fix_calendar_service_text :: "string \<Rightarrow> string" where
  "fix_calendar_service_text content =
     (let content = replace old_reminder new_reminder content;
          content = replace old_attendee new_attendee content;
          content = replace
            ''event.Reminders, _ = s.reminderRepo.GetByEventID(ctx, event.ID)''
            (''if rems, err := s.reminderRepo.GetByEventID(ctx, event.ID); err == nil {\<newline>'' @
             TAB @ TAB @ ''for _, r := range rems {\<newline>'' @
             TAB @ TAB @ TAB @ ''event.Reminders = append(event.Reminders, *r)\<newline>'' @
             TAB @ TAB @ ''}\<newline>'' @
             TAB @ ''}'')
            content;
          content = replace
            ''event.Reminders, _ = s.reminderRepo.GetByEventID(ctx, eventID)''
            (''if rems, err := s.reminderRepo.GetByEventID(ctx, eventID); err == nil {\<newline>'' @
             TAB @ TAB @ ''for _, r := range rems {\<newline>'' @
             TAB @ TAB @ TAB @ ''event.Reminders = append(event.Reminders, *r)\<newline>'' @
             TAB @ TAB @ ''}\<newline>'' @
             TAB @ ''}'')
            content;
          content = replace
            ''e.Reminders, _ = s.reminderRepo.GetByEventID(ctx, e.ID)''
            (''if rems, err := s.reminderRepo.GetByEventID(ctx, e.ID); err == nil {\<newline>'' @
             TAB @ TAB @ TAB @ ''for _, r := range rems {\<newline>'' @
             TAB @ TAB @ TAB @ TAB @ ''e.Reminders = append(e.Reminders, *r)\<newline>'' @
             TAB @ TAB @ TAB @ ''}\<newline>'' @
             TAB @ TAB @ ''}'')
            content
      in content)"

text \<open>Line 136.\<close>

definition add_uuid_import :: "string \<Rightarrow> string" where
  \<open>add_uuid_import content =
     replace ''"fmt"'' (''"fmt"\<newline>'' @ ''\<newline>'' @ TAB @ ''"github.com/google/uuid"'') content\<close>

definition fix_calendar_service :: "world \<Rightarrow> run_result" where
  \<open>fix_calendar_service w =
     (case read_file svc_path w of
        Inl e \<Rightarrow> Raised e w
      | Inr (content, w1) \<Rightarrow>
          let content = fix_calendar_service_text content;
              w2 = write_file svc_path content w1;
              w3 = py_print ''Fixed service/calendar.go type mismatches'' w2
          in (case read_file svc_path w3 of
                Inl e \<Rightarrow> Raised e w3
              | Inr (content, w4) \<Rightarrow>
                  let w5 =
                    (if \<not> str_in ''"github.com/google/uuid"'' content then
                       let content = add_uuid_import content;
                           w = write_file svc_path content w4
                       in py_print ''Added uuid import to service/calendar.go'' w
                     else w4)
                  in Returned (py_print (''\<newline>'' @ ''All calendar fixes applied!'') w5)))\<close>

section \<open>fix\_calendar\_final.py, \<^verbatim>\<open>fix_handlers_calendar\<close>\<close>

definition handlers_calendar_path :: path where
  "handlers_calendar_path = ''/opt/oonrumail/app/services/calendar/handlers/calendar.go''"

text \<open>
  The loop of lines 12 to 33, over the lines from index \<open>i\<close> on. On a line with the
  \<^verbatim>\<open>uuid.Parse\<close> call the fixed line is appended and the inner loop of lines 22 to 24
  moves \<open>i\<close> to the next line containing the \<^verbatim>\<open>ShareCalendar\<close> call, or to the end of
  the list when there is none; the outer loop goes on from there. Lines 29 and 30, the
  renaming on every other line, come first.
\<close>

definition rename_rsvp_request :: "string \<Rightarrow> string" where
  "rename_rsvp_request line =
     (if str_in ''models.RSVPRequest'' line
      then replace ''models.RSVPRequest'' ''models.RespondRequest'' line
      else line)"

function fix_handlers_calendar_loop :: "string list \<Rightarrow> string list \<Rightarrow> string list" where
  "fix_handlers_calendar_loop new_lines [] = new_lines"
| "fix_handlers_calendar_loop new_lines (line # rest) =
     (if str_in ''targetUserID, err := uuid.Parse(req.UserID)'' line then
        let indent = TAB @ TAB
        in fix_handlers_calendar_loop
             (new_lines @ [indent @ ''targetUserID := req.UserID\<newline>''])
             (dropWhile (\<lambda>l. \<not> str_in ''if err := h.service.ShareCalendar'' l) rest)
      else
        let line = rename_rsvp_request line
        in fix_handlers_calendar_loop (new_lines @ [line]) rest)"
  by pat_completeness auto
termination
  by (relation "measure (\<lambda>(new_lines, ls). length ls)")
     (auto simp: less_Suc_eq_le length_dropWhile_le)

definition fix_handlers_calendar :: "world \<Rightarrow> run_result" where
  "fix_handlers_calendar w =
     (case read_file handlers_calendar_path w of
        Inl e \<Rightarrow> Raised e w
      | Inr (text, w1) \<Rightarrow>
          let new_lines = fix_handlers_calendar_loop [] (readlines text);
              w2 = write_file handlers_calendar_path (writelines new_lines) w1
          in Returned (py_print (''Fixed '' @ handlers_calendar_path) w2))"

section \<open>Whitespace\<close>

text \<open>
  \<^verbatim>\<open>str.isspace\<close> on one character, which is also what \<^verbatim>\<open>\s\<close> matches in a regular
  expression on text: the characters 9 to 13, 28 to 32, 133 (next line) and 160
  (no-break space). \<^verbatim>\<open>str.strip()\<close> removes such characters from both ends.
\<close>

definition is_space :: "char \<Rightarrow> bool" where
  "is_space c =
     (c = CHR 0x09 \<or> c = CHR 0x0A \<or> c = CHR 0x0B \<or> c = CHR 0x0C \<or> c = CHR 0x0D \<or>
      c = CHR 0x1C \<or> c = CHR 0x1D \<or> c = CHR 0x1E \<or> c = CHR 0x1F \<or> c = CHR 0x20 \<or>
      c = CHR 0x85 \<or> c = CHR 0xA0)"

definition strip :: "string \<Rightarrow> string" where
  "strip s = rev (dropWhile is_space (rev (dropWhile is_space s)))"

section \<open>scripts/fix\_calendar.py, Fix 1 (lines 12 to 37)\<close>

text \<open>
  \<^verbatim>\<open>s.split(sep)\<close>: the pieces of \<open>s\<close> between the occurrences of \<open>sep\<close>, found from the
  left and without overlap; an empty separator raises \<^verbatim>\<open>ValueError\<close>.
  \<^verbatim>\<open>sep.join(pieces)\<close> puts the separator between the pieces.
\<close>

function split_from :: "string \<Rightarrow> string \<Rightarrow> string \<Rightarrow> string list" where
  "split_from sep cur [] = [cur]"
| "split_from sep cur (c # cs) =
     (if sep \<noteq> [] \<and> prefix sep (c # cs)
      then cur # split_from sep [] (drop (length sep) (c # cs))
      else split_from sep (cur @ [c]) cs)"
  by pat_completeness auto
termination
  by (relation "measure (\<lambda>(sep, cur, s). length s)") auto

definition py_split :: "string \<Rightarrow> string \<Rightarrow> py_exception + string list" where
  "py_split sep s = (if sep = [] then Inl ValueError else Inr (split_from sep [] s))"

fun py_join :: "string \<Rightarrow> string list \<Rightarrow> string" where
  "py_join sep [] = []"
| "py_join sep [x] = x"
| "py_join sep (x # y # ys) = x @ sep @ py_join sep (y # ys)"

text \<open>
  Lines 16 to 24, over the lines from index \<open>i\<close> on: \<^verbatim>\<open>event_end\<close> is the index of the
  first line that is a lone closing brace at or after a line containing the struct
  header, and stays \<^verbatim>\<open>None\<close> when there is no such line.
\<close>

fun find_event_end :: "bool \<Rightarrow> nat \<Rightarrow> string list \<Rightarrow> nat option" where
  "find_event_end in_event i [] = None"
| "find_event_end in_event i (line # rest) =
     (let in_event = (if str_in ''type Event struct {'' line then True else in_event)
      in if in_event \<and> strip line = ''}'' then Some i
         else find_event_end in_event (Suc i) rest)"

text \<open>
  The condition of line 12. The test for the struct header is evaluated first; the
  indexing \<^verbatim>\<open>[1]\<close> and \<^verbatim>\<open>[0]\<close> raises \<^verbatim>\<open>IndexError\<close> on a list that is too short.
\<close>

definition attendees_not_in_struct :: "string \<Rightarrow> py_exception + bool" where
  "attendees_not_in_struct content =
     (if str_in ''type Event struct'' content then
        (case py_split ''type Event struct'' content of
           Inl e \<Rightarrow> Inl e
         | Inr parts \<Rightarrow>
             (case parts of
                part0 # part1 # parts' \<Rightarrow>
                  (case py_split ''}'' part1 of
                     Inl e \<Rightarrow> Inl e
                   | Inr [] \<Rightarrow> Inl IndexError
                   | Inr (struct_body # after_brace) \<Rightarrow> Inr (\<not> str_in ''Attendees'' struct_body))
              | _ \<Rightarrow> Inl IndexError))
      else Inr True)"

definition new_fields :: "string list" where
  \<open>new_fields =
     [TAB @ ''Attendees       []*Attendee `json:"attendees,omitempty" db:"-"`'',
      TAB @ ''Reminders       []Reminder  `json:"reminders,omitempty" db:"-"`'']\<close>

text \<open>
  Lines 12 to 37: the new content and the lines printed, or the exception raised. The
  two calls of \<^verbatim>\<open>lines.insert\<close> put the two fields, in their order, before the line at
  \<^verbatim>\<open>event_end\<close>.
\<close>

definition fix_calendar_event_fields :: "string \<Rightarrow> py_exception + (string \<times> string list)" where
  "fix_calendar_event_fields content =
     (case attendees_not_in_struct content of
        Inl e \<Rightarrow> Inl e
      | Inr missing \<Rightarrow>
          if missing then
            (case py_split ''\<newline>'' content of
               Inl e \<Rightarrow> Inl e
             | Inr ls \<Rightarrow>
                 (case find_event_end False 0 ls of
                    None \<Rightarrow> Inr (content, [])
                  | Some event_end \<Rightarrow>
                      let event_block = py_join ''\<newline>'' (take event_end ls)
                      in if \<not> str_in ''Attendees'' event_block then
                           Inr (py_join ''\<newline>''
                                  (take event_end ls @ new_fields @ drop event_end ls),
                                [''Added Attendees and Reminders fields to Event struct''])
                         else Inr (content, [])))
          else Inr (content, []))"

section \<open>fix\_coredns.py\<close>

text \<open>
  The regular expression of line 53 is a sequence of three kinds of pieces: literal
  text, \<^verbatim>\<open>\s*\<close> (whitespace, as many as possible first) and \<^verbatim>\<open>.*?\<close> (characters other
  than a newline, as few as possible first). The matcher backtracks in the order of
  Python's \<^verbatim>\<open>re\<close> and returns the text left after the first match found at the start
  of its input.
\<close>

datatype re_piece = Lit string | Spaces | LazyDots

function re_match :: "re_piece list \<Rightarrow> string \<Rightarrow> string option" where
  "re_match [] s = Some s"
| "re_match (Lit l # r) s = (if prefix l s then re_match r (drop (length l) s) else None)"
| "re_match (Spaces # r) [] = re_match r []"
| "re_match (Spaces # r) (c # cs) =
     (if is_space c then
        (case re_match (Spaces # r) cs of Some t \<Rightarrow> Some t | None \<Rightarrow> re_match r (c # cs))
      else re_match r (c # cs))"
| "re_match (LazyDots # r) [] = re_match r []"
| "re_match (LazyDots # r) (c # cs) =
     (case re_match r (c # cs) of
        Some t \<Rightarrow> Some t
      | None \<Rightarrow> if c \<noteq> CHR 0x0A then re_match (LazyDots # r) cs else None)"
  by pat_completeness auto
termination
  by (relation "measure (\<lambda>(r, s). length r + length s)") auto

text \<open>
  \<^verbatim>\<open>re.subn(pattern, repl, content, count=1)\<close> for a pattern that cannot match the empty
  string and a replacement without backslashes: the leftmost match is replaced and the
  count is 1, or the text is returned as it is with count 0.
\<close>

fun re_search :: "re_piece list \<Rightarrow> string \<Rightarrow> (string \<times> string) option" where
  "re_search r [] = (case re_match r [] of Some t \<Rightarrow> Some ([], t) | None \<Rightarrow> None)"
| "re_search r (c # cs) =
     (case re_match r (c # cs) of
        Some t \<Rightarrow> Some ([], t)
      | None \<Rightarrow> (case re_search r cs of Some (b, t) \<Rightarrow> Some (c # b, t) | None \<Rightarrow> None))"

definition re_subn1 :: "re_piece list \<Rightarrow> string \<Rightarrow> string \<Rightarrow> string \<times> nat" where
  "re_subn1 r repl s =
     (case re_search r s of None \<Rightarrow> (s, 0) | Some (b, t) \<Rightarrow> (b @ repl @ t, 1))"

definition compose_path :: path where
  "compose_path = ''/opt/oonrumail/app/docker-compose.yml''"

definition corefile_path :: path where
  "corefile_path = ''/opt/oonrumail/app/docker/config/coredns/Corefile''"

definition zone_path :: path where
  "zone_path = ''/opt/oonrumail/app/docker/config/coredns/zones'' @ ''/'' @ ''oonrumail.com.zone''"

definition example_zone_path :: path where
  "example_zone_path = ''/opt/oonrumail/app/docker/config/coredns/zones/example.com.zone''"

definition SERVER_IP :: string where
  "SERVER_IP = ''138.201.37.187''"

definition healthcheck_pattern :: "re_piece list" where
  \<open>healthcheck_pattern =
     [Lit ''    healthcheck:'', Spaces, Lit ''\<newline>'', Spaces,
      Lit ''test: ["CMD", "nslookup"'', LazyDots, Lit ''\<newline>'', Spaces,
      Lit ''interval:'', LazyDots, Lit ''\<newline>'', Spaces,
      Lit ''timeout:'', LazyDots, Lit ''\<newline>'', Spaces,
      Lit ''retries:'', LazyDots, Lit ''\<newline>'', Spaces,
      Lit ''start_period:'', LazyDots, Lit ''\<newline>'']\<close>

definition old_healthcheck :: string where
  \<open>old_healthcheck =
     ''    healthcheck:\<newline>'' @
     ''      test: ["CMD", "nslookup", "example.com", "localhost"]\<newline>'' @
     ''      interval: 30s\<newline>'' @
     ''      timeout: 10s\<newline>'' @
     ''      retries: 3\<newline>'' @
     ''      start_period: 10s\<newline>'' @
     ''    networks:\<newline>'' @
     ''      - email-network\<newline>'' @
     ''\<newline>'' @
     ''  # Adminer''\<close>

definition new_healthcheck :: string where
  \<open>new_healthcheck =
     ''    healthcheck:\<newline>'' @
     ''      test: ["CMD-SHELL", "true"]\<newline>'' @
     ''      interval: 30s\<newline>'' @
     ''      timeout: 5s\<newline>'' @
     ''      retries: 3\<newline>'' @
     ''      start_period: 5s\<newline>'' @
     ''    networks:\<newline>'' @
     ''      - email-network\<newline>'' @
     ''\<newline>'' @
     ''  # Adminer''\<close>

definition replacement :: string where
  \<open>replacement =
     ''    healthcheck:\<newline>'' @
     ''      test: ["CMD-SHELL", "true"]\<newline>'' @
     ''      interval: 30s\<newline>'' @
     ''      timeout: 5s\<newline>'' @
     ''      retries: 3\<newline>'' @
     ''      start_period: 5s\<newline>''\<close>

definition corefile :: string where
  "corefile =
     ''# ============================================================\<newline>'' @
     ''# CoreDNS Configuration for OonruMail\<newline>'' @
     ''# ============================================================\<newline>'' @
     ''# Serves DNS for oonrumail.com and test domains\<newline>'' @
     ''# Production domain: oonrumail.com (also managed via Cloudflare)\<newline>'' @
     ''# ============================================================\<newline>'' @
     ''\<newline>'' @
     ''# Main zone - catch-all\<newline>'' @
     ''.:53 {\<newline>'' @
     ''    log\<newline>'' @
     ''    errors\<newline>'' @
     ''\<newline>'' @
     ''    # Health check endpoint\<newline>'' @
     ''    health {\<newline>'' @
     ''        lameduck 5s\<newline>'' @
     ''    }\<newline>'' @
     ''\<newline>'' @
     ''    # Ready check endpoint\<newline>'' @
     ''    ready\<newline>'' @
     ''\<newline>'' @
     ''    # Prometheus metrics\<newline>'' @
     ''    prometheus :9153\<newline>'' @
     ''\<newline>'' @
     ''    # Forward unknown queries to Cloudflare + Google DNS\<newline>'' @
     ''    forward . 1.1.1.1 8.8.8.8 {\<newline>'' @
     ''        max_concurrent 1000\<newline>'' @
     ''    }\<newline>'' @
     ''\<newline>'' @
     ''    # Cache responses\<newline>'' @
     ''    cache 30\<newline>'' @
     ''\<newline>'' @
     ''    # Load balancing\<newline>'' @
     ''    loadbalance\<newline>'' @
     ''}\<newline>'' @
     ''\<newline>'' @
     ''# Production domain: oonrumail.com\<newline>'' @
     ''oonrumail.com:53 {\<newline>'' @
     ''    log\<newline>'' @
     ''    errors\<newline>'' @
     ''\<newline>'' @
     ''    file /config/zones/oonrumail.com.zone\<newline>'' @
     ''\<newline>'' @
     ''    hosts {\<newline>'' @
     ''        138.201.37.187 oonrumail.com\<newline>'' @
     ''        138.201.37.187 mail.oonrumail.com\<newline>'' @
     ''        138.201.37.187 smtp.oonrumail.com\<newline>'' @
     ''        138.201.37.187 imap.oonrumail.com\<newline>'' @
     ''        138.201.37.187 www.oonrumail.com\<newline>'' @
     ''        138.201.37.187 api.oonrumail.com\<newline>'' @
     ''        138.201.37.187 admin.oonrumail.com\<newline>'' @
     ''        138.201.37.187 calendar.oonrumail.com\<newline>'' @
     ''        138.201.37.187 contacts.oonrumail.com\<newline>'' @
     ''        138.201.37.187 chat.oonrumail.com\<newline>'' @
     ''        fallthrough\<newline>'' @
     ''    }\<newline>'' @
     ''}\<newline>'' @
     ''\<newline>'' @
     ''# Test domain: example.com (kept for development/testing)\<newline>'' @
     ''example.com:53 {\<newline>'' @
     ''    log\<newline>'' @
     ''    errors\<newline>'' @
     ''\<newline>'' @
     ''    file /config/zones/example.com.zone\<newline>'' @
     ''\<newline>'' @
     ''    hosts {\<newline>'' @
     ''        138.201.37.187 mail.example.com\<newline>'' @
     ''        138.201.37.187 smtp.example.com\<newline>'' @
     ''        138.201.37.187 imap.example.com\<newline>'' @
     ''        fallthrough\<newline>'' @
     ''    }\<newline>'' @
     ''}\<newline>''"

definition zone :: string where
  \<open>zone =
     ''; ============================================================\<newline>'' @
     ''; DNS Zone File: oonrumail.com\<newline>'' @
     ''; Production domain managed via Cloudflare\<newline>'' @
     ''; This zone provides internal Docker DNS resolution\<newline>'' @
     ''; ============================================================\<newline>'' @
     ''$ORIGIN oonrumail.com.\<newline>'' @
     ''$TTL 3600\<newline>'' @
     ''\<newline>'' @
     ''; SOA Record\<newline>'' @
     ''@       IN      SOA     ns1.oonrumail.com. admin.oonrumail.com. (\<newline>'' @
     ''                        2026020501      ; Serial (YYYYMMDDNN)\<newline>'' @
     ''                        3600            ; Refresh (1 hour)\<newline>'' @
     ''                        1800            ; Retry (30 minutes)\<newline>'' @
     ''                        604800          ; Expire (1 week)\<newline>'' @
     ''                        86400           ; Minimum TTL (1 day)\<newline>'' @
     ''                        )\<newline>'' @
     ''\<newline>'' @
     ''; Name Servers\<newline>'' @
     ''@       IN      NS      ns1.oonrumail.com.\<newline>'' @
     ''\<newline>'' @
     ''; A Records - Main\<newline>'' @
     ''@       IN      A       138.201.37.187\<newline>'' @
     ''ns1     IN      A       138.201.37.187\<newline>'' @
     ''\<newline>'' @
     ''; A Records - Mail\<newline>'' @
     ''mail    IN      A       138.201.37.187\<newline>'' @
     ''smtp    IN      A       138.201.37.187\<newline>'' @
     ''imap    IN      A       138.201.37.187\<newline>'' @
     ''\<newline>'' @
     ''; A Records - Web & API\<newline>'' @
     ''www     IN      A       138.201.37.187\<newline>'' @
     ''api     IN      A       138.201.37.187\<newline>'' @
     ''admin   IN      A       138.201.37.187\<newline>'' @
     ''\<newline>'' @
     ''; A Records - Services\<newline>'' @
     ''calendar    IN      A       138.201.37.187\<newline>'' @
     ''contacts    IN      A       138.201.37.187\<newline>'' @
     ''chat        IN      A       138.201.37.187\<newline>'' @
     ''storage     IN      A       138.201.37.187\<newline>'' @
     ''auth        IN      A       138.201.37.187\<newline>'' @
     ''\<newline>'' @
     ''; MX Records (Mail Exchanger)\<newline>'' @
     ''@       IN      MX      10 mail.oonrumail.com.\<newline>'' @
     ''\<newline>'' @
     ''; TXT Records - SPF\<newline>'' @
     ''@       IN      TXT     "v=spf1 mx a ip4:138.201.37.187 -all"\<newline>'' @
     ''\<newline>'' @
     ''; TXT Records - DMARC\<newline>'' @
     ''_dmarc  IN      TXT     "v=DMARC1; p=quarantine; rua=mailto:dmarc-reports@oonrumail.com; ruf=mailto:dmarc-forensic@oonrumail.com; adkim=s; aspf=s; pct=100"\<newline>'' @
     ''\<newline>'' @
     ''; SRV Records - Autodiscover\<newline>'' @
     ''_autodiscover._tcp IN   SRV     0 0 443 mail.oonrumail.com.\<newline>'' @
     ''_imaps._tcp     IN      SRV     0 1 993 imap.oonrumail.com.\<newline>'' @
     ''_submission._tcp IN     SRV     0 1 587 smtp.oonrumail.com.\<newline>'' @
     ''\<newline>'' @
     ''; CNAME Records\<newline>'' @
     ''autodiscover    IN      CNAME   mail.oonrumail.com.\<newline>'' @
     ''autoconfig      IN      CNAME   mail.oonrumail.com.\<newline>'' @
     ''webmail         IN      CNAME   www.oonrumail.com.\<newline>''\<close>

text \<open>
  Lines 47 to 65: the new text of the compose file and the line that is printed.
\<close>

definition healthcheck_edit :: "string \<Rightarrow> string \<times> string" where
  "healthcheck_edit content =
     (if str_in old_healthcheck content then
        (replace old_healthcheck new_healthcheck content,
         ''Fixed docker-compose.yml healthcheck'')
      else
        let (content, count) = re_subn1 healthcheck_pattern replacement content
        in if count \<noteq> 0 then
             (content, ''Fixed docker-compose.yml healthcheck (regex)'')
           else
             (content, ''WARNING: Could not find CoreDNS healthcheck to fix''))"

definition fix_compose_healthcheck :: "world \<Rightarrow> run_result" where
  "fix_compose_healthcheck w =
     (case read_file compose_path w of
        Inl e \<Rightarrow> Raised e w
      | Inr (content, w1) \<Rightarrow>
          let (content, line) = healthcheck_edit content;
              w2 = py_print line w1
          in Returned (write_file compose_path content w2))"

text \<open>
  The three other steps. \<^verbatim>\<open>os.makedirs(zones_dir, exist_ok=True)\<close> leaves the files as
  they are.
\<close>

definition update_corefile :: "world \<Rightarrow> run_result" where
  "update_corefile w =
     (let w1 = write_file corefile_path corefile w
      in Returned (py_print (''Updated Corefile at '' @ corefile_path) w1))"

definition create_oonrumail_zone :: "world \<Rightarrow> run_result" where
  "create_oonrumail_zone w =
     (let w1 = write_file zone_path zone w
      in Returned (py_print (''Created zone file at '' @ zone_path) w1))"

definition update_example_zone :: "world \<Rightarrow> run_result" where
  "update_example_zone w =
     (case read_file example_zone_path w of
        Inl e \<Rightarrow> Raised e w
      | Inr (content, w1) \<Rightarrow>
          let content = replace ''172.28.0.1'' SERVER_IP content;
              w2 = write_file example_zone_path content w1
          in Returned (py_print (''Updated example.com zone to use '' @ SERVER_IP) w2))"

text \<open>Lines 239 to 244: the four steps in order; an exception ends the script.\<close>

definition fix_coredns :: "world \<Rightarrow> run_result" where
  "fix_coredns w =
     (case fix_compose_healthcheck w of
        Raised e w' \<Rightarrow> Raised e w'
      | Returned w1 \<Rightarrow>
          (case update_corefile w1 of
             Raised e w' \<Rightarrow> Raised e w'
           | Returned w2 \<Rightarrow>
               (case create_oonrumail_zone w2 of
                  Raised e w' \<Rightarrow> Raised e w'
                | Returned w3 \<Rightarrow>
                    (case update_example_zone w3 of
                       Raised e w' \<Rightarrow> Raised e w'
                     | Returned w4 \<Rightarrow>
                         Returned (py_print (''\<newline>'' @ ''All CoreDNS fixes applied!'') w4)))))"

section \<open>smoke\_test.py, \<^verbatim>\<open>api\<close>\<close>

text \<open>
  What \<^verbatim>\<open>api\<close> is given and what it meets. The payload is \<^verbatim>\<open>None\<close>, a value that
  \<^verbatim>\<open>json.dumps\<close> accepts, or one it rejects with \<^verbatim>\<open>TypeError\<close>. The bytes of a response
  body either are not UTF-8 (\<^verbatim>\<open>decode\<close> raises, with the given message), or decode to a
  text that \<^verbatim>\<open>json.loads\<close> parses to a value, or decode to a text that it rejects.
  \<^verbatim>\<open>urlopen\<close> returns a response, raises \<^verbatim>\<open>HTTPError\<close> with a code and a body, or raises
  another exception with a message. The method and the headers only reach the request
  that is sent.
\<close>

datatype json = JNull | JBool bool | JNum int | JStr string
  | JArr "json list" | JObj "(string \<times> json) list"

datatype payload = NoData | JsonData json | NotSerializable

datatype raw_body = NotUtf8 string | JsonText string json | PlainText string

datatype urlopen_result =
    Response int raw_body
  | RaisesHTTPError int raw_body
  | RaisesOther string

datatype api_body = Parsed json | Raw string

text \<open>
  \<^verbatim>\<open>urllib.request.Request\<close> takes the URL through \<^verbatim>\<open>unwrap\<close>, which strips
  whitespace, a pair of angle brackets and a leading \<^verbatim>\<open>URL:\<close>, then cuts it at its last
  \<^verbatim>\<open>#\<close>, and raises \<^verbatim>\<open>ValueError\<close> (unknown url type) unless what is left starts with a
  scheme: one or more characters other than \<^verbatim>\<open>/\<close> and \<^verbatim>\<open>:\<close>, then a colon.
\<close>

definition unwrap :: "string \<Rightarrow> string" where
  "unwrap url =
     (let url = strip url;
          url = (if take 1 url = ''<'' \<and> drop (length url - 1) url = ''>''
                 then strip (butlast (drop 1 url)) else url);
          url = (if take 4 url = ''URL:'' then strip (drop 4 url) else url)
      in url)"

definition before_last_hash :: "string \<Rightarrow> string" where
  "before_last_hash url =
     (if CHR ''#'' \<in> set url
      then rev (drop 1 (dropWhile (\<lambda>c. c \<noteq> CHR ''#'') (rev url)))
      else url)"

definition url_has_type :: "string \<Rightarrow> bool" where
  "url_has_type url =
     (let scheme = takeWhile (\<lambda>c. c \<noteq> CHR ''/'' \<and> c \<noteq> CHR '':'') url
      in scheme \<noteq> [] \<and> prefix '':'' (drop (length scheme) url))"

definition request_url_ok :: "string \<Rightarrow> bool" where
  "request_url_ok url = url_has_type (before_last_hash (unwrap url))"

text \<open>
  Lines 17 to 37. Lines 19 to 22 run before the \<^verbatim>\<open>try\<close>; an exception raised inside
  the \<^verbatim>\<open>except HTTPError\<close> handler is not caught by the \<^verbatim>\<open>except Exception\<close> clause
  after it.
\<close>

definition api :: "string \<Rightarrow> string \<Rightarrow> payload \<Rightarrow> urlopen_result \<Rightarrow> py_exception + (int \<times> api_body)" where
  "api method url data answer =
     (if data = NotSerializable then Inl TypeError
      else if \<not> request_url_ok url then Inl ValueError
      else
        (case answer of
           Response status body \<Rightarrow>
             (case body of
                NotUtf8 msg \<Rightarrow> Inr (0, Raw msg)
              | JsonText text j \<Rightarrow> Inr (status, Parsed j)
              | PlainText text \<Rightarrow> Inr (status, Raw text))
         | RaisesHTTPError code body \<Rightarrow>
             (case body of
                NotUtf8 msg \<Rightarrow> Inl (UnicodeDecodeError msg)
              | JsonText text j \<Rightarrow> Inr (code, Parsed j)
              | PlainText text \<Rightarrow> Inr (code, Raw text))
         | RaisesOther msg \<Rightarrow> Inr (0, Raw msg)))"

section \<open>scripts/fix\_dup.py\<close>

text \<open>
  The loop of \<^verbatim>\<open>fix_dup.py\<close> (lines 6 to 13) over the lines returned by
  \<^verbatim>\<open>readlines()\<close>; the state is the flag \<^verbatim>\<open>seen_reminders\<close> and the list
  \<^verbatim>\<open>new_lines\<close>, to which \<^verbatim>\<open>append\<close> adds at the end.
\<close>

fun fix_dup_loop :: "bool \<Rightarrow> string list \<Rightarrow> string list \<Rightarrow> string list" where
  "fix_dup_loop seen_reminders new_lines [] = new_lines"
| "fix_dup_loop seen_reminders new_lines (line # rest) =
     (if str_in ''Reminders'' line \<and> str_in ''[]Reminder'' line then
        (if seen_reminders then fix_dup_loop seen_reminders new_lines rest
         else fix_dup_loop True (new_lines @ [line]) rest)
      else fix_dup_loop seen_reminders (new_lines @ [line]) rest)"

definition fix_dup :: "string list \<Rightarrow> string list" where
  "fix_dup lines = fix_dup_loop False [] lines"

text \<open>The test of line 9 of \<^verbatim>\<open>fix_dup.py\<close>, named for the statements below.\<close>

definition reminders_line :: "string \<Rightarrow> bool" where
  "reminders_line line = (str_in ''Reminders'' line \<and> str_in ''[]Reminder'' line)"

section \<open>Properties of the string primitives and of file reads\<close>

lemma str_in_sublist: "str_in sub s = sublist sub s"
  by (induction s) (auto simp: sublist_Cons_right)

lemma str_in_append_right: "str_in sub b \<Longrightarrow> str_in sub (a @ b)"
  by (simp add: str_in_sublist sublist_append)

lemma replace_from_absent: "\<not> str_in old s \<Longrightarrow> replace_from old new s = s"
  by (induction s) auto

lemma replace_absent: "\<not> str_in old s \<Longrightarrow> replace old new s = s"
  by (cases "old = []") (auto simp: replace_def replace_from_absent str_in_sublist)

lemma set_replace_from: "set (replace_from old new s) \<subseteq> set new \<union> set s"
proof (induction old new s rule: replace_from.induct)
  case (1 old new)
  show ?case by simp
next
  case (2 old new c cs)
  show ?case
  proof (cases "old \<noteq> [] \<and> prefix old (c # cs)")
    case True
    then have "set (replace_from old new (drop (length old) (c # cs)))
        \<subseteq> set new \<union> set (drop (length old) (c # cs))"
      using 2 by blast
    moreover have "set (drop (length old) (c # cs)) \<subseteq> set (c # cs)"
      by (rule set_drop_subset)
    ultimately show ?thesis using True by auto
  next
    case False
    then show ?thesis using 2 by auto
  qed
qed

lemma set_replace: "set (replace old new s) \<subseteq> set new \<union> set s"
  using set_replace_from [of old new s] by (auto simp: replace_def)

lemma replace_no_cr:
  "CHR 0x0D \<notin> set new \<Longrightarrow> CHR 0x0D \<notin> set s \<Longrightarrow> CHR 0x0D \<notin> set (replace old new s)"
  using set_replace [of old new s] by auto

lemma universal_newlines_no_cr: "CHR 0x0D \<notin> set (universal_newlines s)"
  by (induction s rule: universal_newlines.induct) auto

lemma universal_newlines_id: "CHR 0x0D \<notin> set s \<Longrightarrow> universal_newlines s = s"
  by (induction s rule: universal_newlines.induct) auto

lemma read_file_Some:
  "files w p = Some t \<Longrightarrow>
     read_file p w = Inr (universal_newlines t, w\<lparr>events := events w @ [OpenRead p]\<rparr>)"
  by (simp add: read_file_def)

lemma read_file_None: "files w p = None \<Longrightarrow> read_file p w = Inl (FileNotFoundError p)"
  by (simp add: read_file_def)

lemma fix_port_Some:
  assumes "files w fix_port_path = Some old"
  shows "fix_port w =
     Returned (w\<lparr>files := (files w)(fix_port_path \<mapsto> fix_port_text (universal_newlines old)),
                 events := events w @
                   [OpenRead fix_port_path, OpenWrite fix_port_path,
                    WriteData fix_port_path (fix_port_text (universal_newlines old))],
                 stdout := stdout w @ [''Fixed!'']\<rparr>)"
  using assms by (simp add: fix_port_def read_file_def write_file_def py_print_def Let_def)

section \<open>C1: idempotence\<close>

lemma add_suppression_request_marker: "str_in ''AddSuppressionRequest'' add_suppression_request"
  by code_simp

lemma add_suppression_request_no_cr: "CHR 0x0D \<notin> set add_suppression_request"
  by code_simp

text \<open>
  C1, as amended. A rule guarded by a check that its marker is not yet in the file, as
  Fix 1 of \<^verbatim>\<open>fix_handlers.py\<close>, is idempotent. For every world, the first run stops
  only when the file is missing; otherwise a second run on the world it leaves reads the
  file once, prints that the request type already exists, writes nothing and leaves
  every file as the first run left it.
\<close>

theorem guarded_append_idempotent:
  "(case fix_handlers_suppression w of
      Raised e w' \<Rightarrow> files w supp_path = None
    | Returned w1 \<Rightarrow>
        fix_handlers_suppression w1 =
          Returned (w1\<lparr>events := events w1 @ [OpenRead supp_path],
                       stdout := stdout w1 @ [''AddSuppressionRequest already exists'']\<rparr>))"
proof (cases "files w supp_path")
  case None
  then show ?thesis
    by (simp add: fix_handlers_suppression_def read_file_None)
next
  case (Some old)
  show ?thesis
  proof (cases "str_in ''AddSuppressionRequest'' (universal_newlines old)")
    case True
    then show ?thesis
      using Some
      by (simp add: fix_handlers_suppression_def read_file_def py_print_def)
  next
    case False
    let ?new = "universal_newlines old @ add_suppression_request"
    have "CHR 0x0D \<notin> set ?new"
      using universal_newlines_no_cr [of old] add_suppression_request_no_cr by simp
    then have "universal_newlines ?new = ?new"
      by (rule universal_newlines_id)
    moreover have "str_in ''AddSuppressionRequest'' ?new"
      using add_suppression_request_marker by (rule str_in_append_right)
    ultimately show ?thesis
      using Some False
      by (simp add: fix_handlers_suppression_def read_file_def write_file_def py_print_def Let_def)
  qed
qed

lemma fix_webhook_once:
  "fix_webhook_text ''package service\<newline>'' = ''package service\<newline>'' @ concat new_block_1"
  by code_simp

lemma fix_webhook_again:
  "fix_webhook_text (''package service\<newline>'' @ concat new_block_1) =
     ''package service\<newline>'' @ concat new_block_1 @ concat new_block_1"
  by code_simp

text \<open>
  C1 as stated fails on the positional replacement of \<^verbatim>\<open>fix_webhook.py\<close>, which has
  no such check. On a file of one line the slice \<^verbatim>\<open>lines[140:158]\<close> is empty at the
  end of the list, so each run appends the block again: the second run duplicates the
  edit and its result differs from the first run's.
\<close>

theorem fix_webhook_twice_counterexample:
  "fix_webhook_text ''package service\<newline>'' = ''package service\<newline>'' @ concat new_block_1
   \<and> fix_webhook_text (fix_webhook_text ''package service\<newline>'') =
       ''package service\<newline>'' @ concat new_block_1 @ concat new_block_1
   \<and> fix_webhook_text (fix_webhook_text ''package service\<newline>'') \<noteq>
       fix_webhook_text ''package service\<newline>''"
proof -
  have "concat new_block_1 \<noteq> []"
    by (simp add: new_block_1_def)
  then show ?thesis
    by (simp only: fix_webhook_once fix_webhook_again) simp
qed

section \<open>C2: how a result is committed\<close>

lemma fix_port_events:
  assumes "files w fix_port_path = Some old"
  shows "run_events fix_port w =
     [OpenRead fix_port_path, OpenWrite fix_port_path,
      WriteData fix_port_path (fix_port_text (universal_newlines old))]"
  by (simp add: run_events_def final_world_def fix_port_Some [OF assms])

lemma disk_after_three:
  "disk_after k [OpenRead p, OpenWrite p, WriteData p d] fs =
     (if k \<le> 1 then fs else if k = 2 then fs(p \<mapsto> []) else fs(p \<mapsto> d))"
proof -
  consider "k = 0" | "k = 1" | "k = 2" | "3 \<le> k" by linarith
  then show ?thesis
  proof cases
    case 1 then show ?thesis by (simp add: disk_after_def)
  next
    case 2 then show ?thesis by (simp add: disk_after_def)
  next
    case 3
    then have "take k [OpenRead p, OpenWrite p, WriteData p d] = [OpenRead p, OpenWrite p]"
      by (simp add: numeral_2_eq_2)
    then show ?thesis using 3 by (simp add: disk_after_def)
  next
    case 4
    then have "take k [OpenRead p, OpenWrite p, WriteData p d] = [OpenRead p, OpenWrite p, WriteData p d]"
      by simp
    then show ?thesis using 4 by (simp add: disk_after_def)
  qed
qed

text \<open>
  C2, as amended. \<^verbatim>\<open>fix_port.py\<close> commits in place. For every world in which the file
  exists, a run reads it, opens the same path for writing, which truncates it, and writes
  the new text there: these are its only file operations, so no temporary file is written
  and nothing is renamed. Cut off after \<open>k\<close> of these operations, the file on disk is the
  old text for \<open>k \<le> 1\<close>, empty for \<open>k = 2\<close>, and the new text from then on; a run that
  completes leaves the new text.
\<close>

theorem fix_port_writes_in_place:
  assumes "files w fix_port_path = Some old"
  shows "run_events fix_port w =
       [OpenRead fix_port_path, OpenWrite fix_port_path,
        WriteData fix_port_path (fix_port_text (universal_newlines old))]
     \<and> disk_after k (run_events fix_port w) (files w) fix_port_path =
         (if k \<le> 1 then Some old
          else if k = 2 then Some []
          else Some (fix_port_text (universal_newlines old)))
     \<and> final_files fix_port w fix_port_path = Some (fix_port_text (universal_newlines old))"
proof -
  have "final_files fix_port w fix_port_path = Some (fix_port_text (universal_newlines old))"
    by (simp add: final_files_def final_world_def fix_port_Some [OF assms])
  then show ?thesis
    using assms by (simp add: fix_port_events [OF assms] disk_after_three)
qed

lemma port_example_file:
  \<open>files \<lparr>files = [fix_port_path \<mapsto> ''addr: ":8080"\<newline>''], events = [], stdout = []\<rparr>
     fix_port_path = Some ''addr: ":8080"\<newline>''\<close>
  by simp

lemma port_example_text:
  \<open>fix_port_text ''addr: ":8080"\<newline>'' = ''addr: ":${PORT}"\<newline>''\<close>
  by code_simp

text \<open>The statement at a configuration file of one line.\<close>

theorem fix_port_writes_in_place_witness:
  \<open>run_events fix_port
       \<lparr>files = [fix_port_path \<mapsto> ''addr: ":8080"\<newline>''], events = [], stdout = []\<rparr> =
       [OpenRead fix_port_path, OpenWrite fix_port_path,
        WriteData fix_port_path ''addr: ":${PORT}"\<newline>'']
     \<and> final_files fix_port
       \<lparr>files = [fix_port_path \<mapsto> ''addr: ":8080"\<newline>''], events = [], stdout = []\<rparr>
       fix_port_path = Some ''addr: ":${PORT}"\<newline>''\<close>
  using fix_port_writes_in_place [OF port_example_file, of 3]
  by (simp add: port_example_text)

text \<open>
  C2 as stated fails: on that file, a run cut off after the file has been opened for
  writing and before the data is written leaves an empty file, which is neither the old
  text nor the new one.
\<close>

theorem fix_port_interrupted_counterexample:
  \<open>disk_after 2
       (run_events fix_port
          \<lparr>files = [fix_port_path \<mapsto> ''addr: ":8080"\<newline>''], events = [], stdout = []\<rparr>)
       [fix_port_path \<mapsto> ''addr: ":8080"\<newline>''] fix_port_path = Some ''''
   \<and> final_files fix_port
       \<lparr>files = [fix_port_path \<mapsto> ''addr: ":8080"\<newline>''], events = [], stdout = []\<rparr>
       fix_port_path = Some ''addr: ":${PORT}"\<newline>''
   \<and> '''' \<noteq> ''addr: ":8080"\<newline>'' \<and> '''' \<noteq> ''addr: ":${PORT}"\<newline>''\<close>
proof -
  have \<open>final_files fix_port
       \<lparr>files = [fix_port_path \<mapsto> ''addr: ":8080"\<newline>''], events = [], stdout = []\<rparr>
       fix_port_path = Some (fix_port_text (universal_newlines ''addr: ":8080"\<newline>''))\<close>
    by (simp add: final_files_def final_world_def fix_port_Some [OF port_example_file])
  then show ?thesis
    by (simp add: fix_port_events [OF port_example_file] disk_after_three port_example_text)
qed

section \<open>C3: loads and writes of a target file\<close>

lemma service_news_no_cr:
  "CHR 0x0D \<notin> set new_reminder" "CHR 0x0D \<notin> set new_attendee"
  by code_simp+

lemma fix_calendar_service_text_no_cr:
  assumes "CHR 0x0D \<notin> set s"
  shows "CHR 0x0D \<notin> set (fix_calendar_service_text s)"
  unfolding fix_calendar_service_text_def Let_def
  by (intro replace_no_cr service_news_no_cr assms) simp_all

lemma fix_calendar_service_Some:
  assumes "files w svc_path = Some old"
  shows \<open>fix_calendar_service w =
     (let c1 = fix_calendar_service_text (universal_newlines old);
          w3 = w\<lparr>files := (files w)(svc_path \<mapsto> c1),
                   events := events w @
                     [OpenRead svc_path, OpenWrite svc_path, WriteData svc_path c1, OpenRead svc_path],
                   stdout := stdout w @ [''Fixed service/calendar.go type mismatches'']\<rparr>
      in Returned
          (if \<not> str_in ''"github.com/google/uuid"'' c1 then
             w3\<lparr>files := (files w)(svc_path \<mapsto> add_uuid_import c1),
                 events := events w3 @ [OpenWrite svc_path, WriteData svc_path (add_uuid_import c1)],
                 stdout := stdout w3 @
                   [''Added uuid import to service/calendar.go'',
                    ''\<newline>'' @ ''All calendar fixes applied!'']\<rparr>
           else w3\<lparr>stdout := stdout w3 @ [''\<newline>'' @ ''All calendar fixes applied!'']\<rparr>))\<close>
proof -
  have "universal_newlines (fix_calendar_service_text (universal_newlines old)) =
      fix_calendar_service_text (universal_newlines old)"
    by (intro universal_newlines_id fix_calendar_service_text_no_cr universal_newlines_no_cr)
  then show ?thesis
    using assms
    by (simp add: fix_calendar_service_def read_file_def write_file_def py_print_def Let_def)
qed

lemma fix_calendar_service_events:
  assumes "files w svc_path = Some old"
  shows \<open>run_events fix_calendar_service w =
       [OpenRead svc_path, OpenWrite svc_path,
        WriteData svc_path (fix_calendar_service_text (universal_newlines old)),
        OpenRead svc_path] @
       (if str_in ''"github.com/google/uuid"'' (fix_calendar_service_text (universal_newlines old))
        then []
        else [OpenWrite svc_path,
              WriteData svc_path
                (add_uuid_import (fix_calendar_service_text (universal_newlines old)))])\<close>
  by (simp add: run_events_def final_world_def fix_calendar_service_Some [OF assms] Let_def)

text \<open>
  C3, as amended. For every world in which the service file exists, the service pass of
  \<^verbatim>\<open>fix_calendar.py\<close> loads the file twice and writes it once or twice. The first write
  comes after the five replacements have been applied in memory and happens whether or
  not any of them found its pattern; the file is then read again, and written a second
  time when the text just written lacks the uuid import.
\<close>

theorem fix_calendar_service_reads_twice:
  assumes "files w svc_path = Some old"
  shows \<open>run_events fix_calendar_service w =
       [OpenRead svc_path, OpenWrite svc_path,
        WriteData svc_path (fix_calendar_service_text (universal_newlines old)),
        OpenRead svc_path] @
       (if str_in ''"github.com/google/uuid"'' (fix_calendar_service_text (universal_newlines old))
        then []
        else [OpenWrite svc_path,
              WriteData svc_path
                (add_uuid_import (fix_calendar_service_text (universal_newlines old)))])
     \<and> count_list (run_events fix_calendar_service w) (OpenRead svc_path) = 2
     \<and> count_list (run_events fix_calendar_service w) (OpenWrite svc_path) =
         (if str_in ''"github.com/google/uuid"'' (fix_calendar_service_text (universal_newlines old))
          then 1 else 2)\<close>
  by (simp add: fix_calendar_service_events [OF assms])

lemma service_example_file:
  \<open>files \<lparr>files = [svc_path \<mapsto> ''package service\<newline>''], events = [], stdout = []\<rparr> svc_path =
     Some ''package service\<newline>''\<close>
  by simp

lemma service_example_text:
  "fix_calendar_service_text ''package service\<newline>'' = ''package service\<newline>''"
  by code_simp

lemma service_example_no_uuid:
  \<open>\<not> str_in ''"github.com/google/uuid"'' ''package service\<newline>''\<close>
  by code_simp

text \<open>The statement at a service file of one line.\<close>

theorem fix_calendar_service_reads_twice_witness:
  \<open>count_list
      (run_events fix_calendar_service
         \<lparr>files = [svc_path \<mapsto> ''package service\<newline>''], events = [], stdout = []\<rparr>)
      (OpenRead svc_path) = 2\<close>
  using fix_calendar_service_reads_twice [OF service_example_file] by simp

lemma partial_example_file:
  "files \<lparr>files = [svc_path \<mapsto> old_reminder @ ''\<newline>''], events = [], stdout = []\<rparr> svc_path =
     Some (old_reminder @ ''\<newline>'')"
  by simp

lemma partial_example_text:
  "fix_calendar_service_text (universal_newlines (old_reminder @ ''\<newline>'')) = new_reminder @ ''\<newline>''"
  by code_simp

lemma partial_example_facts:
  "\<not> str_in old_attendee (old_reminder @ ''\<newline>'')"
  "new_reminder @ ''\<newline>'' \<noteq> old_reminder @ ''\<newline>''"
  \<open>\<not> str_in ''"github.com/google/uuid"'' (new_reminder @ ''\<newline>'')\<close>
  "add_uuid_import (new_reminder @ ''\<newline>'') = new_reminder @ ''\<newline>''"
  by code_simp+

text \<open>
  C3 as stated fails. On a file in which none of the five patterns occurs, the file is
  loaded twice and opened for writing twice. On a file with the first pattern and
  without the second, the second replacement finds nothing, and the file on disk after
  the run still differs from the file before it: the first replacement has been written.
\<close>

theorem fix_calendar_service_counterexample:
  \<open>count_list
      (run_events fix_calendar_service
         \<lparr>files = [svc_path \<mapsto> ''package service\<newline>''], events = [], stdout = []\<rparr>)
      (OpenRead svc_path) = 2
   \<and> count_list
      (run_events fix_calendar_service
         \<lparr>files = [svc_path \<mapsto> ''package service\<newline>''], events = [], stdout = []\<rparr>)
      (OpenWrite svc_path) = 2
   \<and> \<not> str_in old_attendee (old_reminder @ ''\<newline>'')
   \<and> final_files fix_calendar_service
        \<lparr>files = [svc_path \<mapsto> old_reminder @ ''\<newline>''], events = [], stdout = []\<rparr> svc_path =
       Some (new_reminder @ ''\<newline>'')
   \<and> new_reminder @ ''\<newline>'' \<noteq> old_reminder @ ''\<newline>''\<close>
proof (intro conjI)
  show \<open>count_list
      (run_events fix_calendar_service
         \<lparr>files = [svc_path \<mapsto> ''package service\<newline>''], events = [], stdout = []\<rparr>)
      (OpenRead svc_path) = 2\<close>
    using service_example_no_uuid
    by (simp add: fix_calendar_service_events [OF service_example_file] service_example_text)
  show \<open>count_list
      (run_events fix_calendar_service
         \<lparr>files = [svc_path \<mapsto> ''package service\<newline>''], events = [], stdout = []\<rparr>)
      (OpenWrite svc_path) = 2\<close>
    using service_example_no_uuid
    by (simp add: fix_calendar_service_events [OF service_example_file] service_example_text)
  show "\<not> str_in old_attendee (old_reminder @ ''\<newline>'')"
    by (rule partial_example_facts(1))
  show "new_reminder @ ''\<newline>'' \<noteq> old_reminder @ ''\<newline>''"
    by (rule partial_example_facts(2))
  show "final_files fix_calendar_service
        \<lparr>files = [svc_path \<mapsto> old_reminder @ ''\<newline>''], events = [], stdout = []\<rparr> svc_path =
       Some (new_reminder @ ''\<newline>'')"
    unfolding final_files_def fix_calendar_service_Some [OF partial_example_file]
      partial_example_text Let_def
    using partial_example_facts(3)
    by (simp add: final_world_def partial_example_facts(4))
qed

section \<open>C4: anchored blocks\<close>

lemma loop_keeps_prefix:
  assumes "\<forall>l \<in> set pre. \<not> str_in ''targetUserID, err := uuid.Parse(req.UserID)'' l"
  shows "fix_handlers_calendar_loop acc (pre @ rest) =
         fix_handlers_calendar_loop (acc @ map rename_rsvp_request pre) rest"
  using assms by (induction pre arbitrary: acc) simp_all

lemma loop_acc:
  "fix_handlers_calendar_loop acc ls = acc @ fix_handlers_calendar_loop [] ls"
proof (induction ls arbitrary: acc rule: length_induct)
  case (1 ls)
  show ?case
  proof (cases ls)
    case Nil
    then show ?thesis by simp
  next
    case (Cons line rest)
    let ?d = "dropWhile (\<lambda>l. \<not> str_in ''if err := h.service.ShareCalendar'' l) rest"
    have d: "length ?d < length ls"
      using Cons length_dropWhile_le [of _ rest] by (simp add: less_Suc_eq_le)
    have r: "length rest < length ls"
      using Cons by simp
    show ?thesis
    proof (cases "str_in ''targetUserID, err := uuid.Parse(req.UserID)'' line")
      case True
      then show ?thesis
        using 1 [rule_format, OF d, of "acc @ [TAB @ TAB @ ''targetUserID := req.UserID\<newline>'']"]
          1 [rule_format, OF d, of "[TAB @ TAB @ ''targetUserID := req.UserID\<newline>'']"]
        by (simp add: Cons)
    next
      case False
      then show ?thesis
        using 1 [rule_format, OF r, of "acc @ [rename_rsvp_request line]"]
          1 [rule_format, OF r, of "[rename_rsvp_request line]"]
        by (simp add: Cons)
    qed
  qed
qed

lemma dropWhile_to_end_marker:
  assumes "\<forall>l \<in> set mid. \<not> P l" and "P e"
  shows "dropWhile (\<lambda>l. \<not> P l) (mid @ e # post) = e # post"
  using assms by (induction mid) simp_all

lemma set_strip: "set s \<subseteq> set (strip s) \<union> {c. is_space c}"
proof -
  let ?m = "dropWhile is_space s"
  have "set s = set (takeWhile is_space s) \<union> set ?m"
    by (metis set_append takeWhile_dropWhile_id)
  moreover have "set (takeWhile is_space s) \<subseteq> {c. is_space c}"
    using set_takeWhileD by fastforce
  moreover have "set (rev ?m) = set (takeWhile is_space (rev ?m)) \<union> set (dropWhile is_space (rev ?m))"
    by (metis set_append takeWhile_dropWhile_id)
  moreover have "set (takeWhile is_space (rev ?m)) \<subseteq> {c. is_space c}"
    using set_takeWhileD by fastforce
  ultimately show ?thesis
    by (auto simp: strip_def)
qed

lemma header_not_brace:
  assumes "str_in ''type Event struct {'' l"
  shows "strip l \<noteq> ''}''"
proof
  assume s: "strip l = ''}''"
  have "sublist ''type Event struct {'' l"
    using assms by (simp add: str_in_sublist)
  then have "set ''type Event struct {'' \<subseteq> set l"
    by (auto simp: sublist_def)
  then have "CHR ''t'' \<in> set l" by simp
  then have "CHR ''t'' \<in> set (strip l) \<union> {c. is_space c}"
    using set_strip by blast
  then show False
    by (simp add: s is_space_def)
qed

lemma find_event_end_absent:
  "\<forall>l \<in> set ls. strip l \<noteq> ''}'' \<Longrightarrow> find_event_end in_event i ls = None"
  by (induction ls arbitrary: in_event i) (simp_all add: Let_def)

lemma find_event_end_before_header:
  "\<forall>l \<in> set pre. \<not> str_in ''type Event struct {'' l \<Longrightarrow>
     find_event_end False i (pre @ rest) = find_event_end False (i + length pre) rest"
  by (induction pre arbitrary: i) (simp_all add: Let_def)

lemma find_event_end_in_event:
  "\<forall>l \<in> set mid. strip l \<noteq> ''}'' \<Longrightarrow> strip e = ''}'' \<Longrightarrow>
     find_event_end True i (mid @ e # post) = Some (i + length mid)"
  by (induction mid arbitrary: i) (simp_all add: Let_def)

lemma split_from_not_Nil: "split_from sep cur s \<noteq> []"
  by (induction sep cur s rule: split_from.induct) auto

lemma split_from_two_parts:
  "sep \<noteq> [] \<Longrightarrow> str_in sep s \<Longrightarrow> \<exists>a b rest. split_from sep cur s = a # b # rest"
proof (induction s arbitrary: cur)
  case Nil
  then show ?case by simp
next
  case (Cons c cs)
  show ?case
  proof (cases "prefix sep (c # cs)")
    case True
    obtain b rest where "split_from sep [] (drop (length sep) (c # cs)) = b # rest"
      using split_from_not_Nil [of sep "[]" "drop (length sep) (c # cs)"]
      by (cases "split_from sep [] (drop (length sep) (c # cs))") auto
    then show ?thesis
      using True Cons.prems(1) by simp
  next
    case False
    then have "str_in sep cs"
      using Cons.prems(2) by simp
    then show ?thesis
      using False Cons.IH [OF Cons.prems(1), of "cur @ [c]"] by simp
  qed
qed

lemma attendees_not_in_struct_returns: "\<exists>b. attendees_not_in_struct content = Inr b"
proof (cases "str_in ''type Event struct'' content")
  case False
  then have "attendees_not_in_struct content = Inr True"
    by (simp add: attendees_not_in_struct_def)
  then show ?thesis by blast
next
  case True
  obtain a b rest where p: "split_from ''type Event struct'' [] content = a # b # rest"
    using split_from_two_parts [OF _ True, of "[]"] by auto
  obtain q qs where q: "split_from ''}'' [] b = q # qs"
    using split_from_not_Nil [of "''}''" "[]" b] by (cases "split_from ''}'' [] b") auto
  show ?thesis
    using True by (simp add: attendees_not_in_struct_def py_split_def p q)
qed

lemma no_span_no_edit:
  assumes "py_split ''\<newline>'' content = Inr ls" and "find_event_end False 0 ls = None"
  shows "fix_calendar_event_fields content = Inr (content, [])"
proof -
  obtain b where "attendees_not_in_struct content = Inr b"
    using attendees_not_in_struct_returns by blast
  then show ?thesis
    using assms by (simp add: fix_calendar_event_fields_def)
qed

text \<open>
  C4, as amended. No script raises an error for an anchor that does not close. In
  \<^verbatim>\<open>fix_handlers_calendar\<close>, when a line with the end marker follows the first line
  with the start marker, the span runs from the start line up to, and not including,
  the next end-marker line after it; the span is replaced by the fixed line, the lines
  before it are kept (with the request type renamed), and the loop goes on at the
  end-marker line. In Fix 1 of \<^verbatim>\<open>fix_calendar.py\<close>, the end of the struct is the first
  line that is a lone closing brace after the header line; when no such line follows,
  the search ends with \<^verbatim>\<open>None\<close>, and Fix 1 raises nothing, prints nothing and leaves
  the content as it is.
\<close>

theorem anchored_block_replaced:
  assumes "\<forall>l \<in> set pre. \<not> str_in ''targetUserID, err := uuid.Parse(req.UserID)'' l"
    and "str_in ''targetUserID, err := uuid.Parse(req.UserID)'' s"
    and "\<forall>l \<in> set mid. \<not> str_in ''if err := h.service.ShareCalendar'' l"
    and "str_in ''if err := h.service.ShareCalendar'' e"
    and "\<forall>l \<in> set before. \<not> str_in ''type Event struct {'' l"
    and "str_in ''type Event struct {'' header"
    and "\<forall>l \<in> set members. strip l \<noteq> ''}''"
    and "strip closing = ''}''"
    and "py_split ''\<newline>'' content = Inr (before @ header # members)"
  shows "fix_handlers_calendar_loop [] (pre @ s # mid @ e # post) =
       map rename_rsvp_request pre @ (TAB @ TAB @ ''targetUserID := req.UserID\<newline>'') #
       fix_handlers_calendar_loop [] (e # post)
     \<and> find_event_end False 0 (before @ header # members @ closing # after) =
         Some (length before + 1 + length members)
     \<and> find_event_end False 0 (before @ header # members) = None
     \<and> fix_calendar_event_fields content = Inr (content, [])"
proof -
  have span: "fix_handlers_calendar_loop [] (pre @ s # mid @ e # post) =
       map rename_rsvp_request pre @ (TAB @ TAB @ ''targetUserID := req.UserID\<newline>'') #
       fix_handlers_calendar_loop [] (e # post)"
  proof -
    have "fix_handlers_calendar_loop [] (pre @ s # mid @ e # post) =
        fix_handlers_calendar_loop (map rename_rsvp_request pre) (s # mid @ e # post)"
      using loop_keeps_prefix [OF assms(1), of "[]"] by simp
    also have "\<dots> = fix_handlers_calendar_loop
        (map rename_rsvp_request pre @ [TAB @ TAB @ ''targetUserID := req.UserID\<newline>''])
        (e # post)"
      using assms(2) dropWhile_to_end_marker
        [of mid "str_in ''if err := h.service.ShareCalendar''" e post, OF assms(3) assms(4)]
      by (simp del: fix_handlers_calendar_loop.simps
          add: fix_handlers_calendar_loop.simps(2) [of _ s])
    also have "\<dots> =
        (map rename_rsvp_request pre @ [TAB @ TAB @ ''targetUserID := req.UserID\<newline>''])
        @ fix_handlers_calendar_loop [] (e # post)"
      by (rule loop_acc)
    finally show ?thesis by simp
  qed
  have h: "strip header \<noteq> ''}''"
    using assms(6) by (rule header_not_brace)
  have found: "find_event_end False 0 (before @ header # members @ closing # after) =
      Some (length before + 1 + length members)"
  proof -
    have "find_event_end False 0 (before @ header # members @ closing # after) =
        find_event_end False (length before) (header # members @ closing # after)"
      using find_event_end_before_header [OF assms(5), of 0] by simp
    also have "\<dots> = find_event_end True (Suc (length before)) (members @ closing # after)"
      using assms(6) h by (simp add: Let_def)
    also have "\<dots> = Some (Suc (length before) + length members)"
      using assms(7) assms(8) by (rule find_event_end_in_event)
    finally show ?thesis by simp
  qed
  have none: "find_event_end False 0 (before @ header # members) = None"
  proof -
    have "find_event_end False 0 (before @ header # members) =
        find_event_end False (length before) (header # members)"
      using find_event_end_before_header [OF assms(5), of 0] by simp
    also have "\<dots> = find_event_end True (Suc (length before)) members"
      using assms(6) h by (simp add: Let_def)
    also have "\<dots> = None"
      using assms(7) by (rule find_event_end_absent)
    finally show ?thesis .
  qed
  have "fix_calendar_event_fields content = Inr (content, [])"
    using assms(9) none by (rule no_span_no_edit)
  with span found none show ?thesis by simp
qed

lemma share_example:
  "\<forall>l \<in> set [''func share() {\<newline>'']. \<not> str_in ''targetUserID, err := uuid.Parse(req.UserID)'' l"
  "str_in ''targetUserID, err := uuid.Parse(req.UserID)''
     (TAB @ TAB @ ''targetUserID, err := uuid.Parse(req.UserID)\<newline>'')"
  "\<forall>l \<in> set [TAB @ TAB @ ''if err != nil {\<newline>'', TAB @ TAB @ TAB @ ''return\<newline>'',
                 TAB @ TAB @ ''}\<newline>'']. \<not> str_in ''if err := h.service.ShareCalendar'' l"
  "str_in ''if err := h.service.ShareCalendar''
     (TAB @ TAB @ ''if err := h.service.ShareCalendar(ctx, targetUserID); err != nil {\<newline>'')"
  by code_simp+

lemma struct_example:
  "\<forall>l \<in> set [''package models'']. \<not> str_in ''type Event struct {'' l"
  "str_in ''type Event struct {'' ''type Event struct {''"
  "\<forall>l \<in> set [TAB @ ''ID string'']. strip l \<noteq> ''}''"
  "strip ''}'' = ''}''"
  "py_split ''\<newline>''
     (''package models\<newline>'' @ ''type Event struct {\<newline>'' @ TAB @ ''ID string'') =
   Inr ([''package models''] @ ''type Event struct {'' # [TAB @ ''ID string''])"
  by code_simp+

text \<open>The statement at a handler of seven lines and a struct that is not closed.\<close>

theorem anchored_block_replaced_witness:
  "fix_handlers_calendar_loop []
     ([''func share() {\<newline>''] @
      (TAB @ TAB @ ''targetUserID, err := uuid.Parse(req.UserID)\<newline>'') #
      [TAB @ TAB @ ''if err != nil {\<newline>'', TAB @ TAB @ TAB @ ''return\<newline>'',
       TAB @ TAB @ ''}\<newline>''] @
      (TAB @ TAB @ ''if err := h.service.ShareCalendar(ctx, targetUserID); err != nil {\<newline>'') #
      [''}\<newline>'']) =
     map rename_rsvp_request [''func share() {\<newline>''] @
     (TAB @ TAB @ ''targetUserID := req.UserID\<newline>'') #
     fix_handlers_calendar_loop []
       ((TAB @ TAB @ ''if err := h.service.ShareCalendar(ctx, targetUserID); err != nil {\<newline>'') #
        [''}\<newline>''])
   \<and> find_event_end False 0
       ([''package models''] @ ''type Event struct {'' # [TAB @ ''ID string''] @ ''}'' # []) =
       Some (length [''package models''] + 1 + length [TAB @ ''ID string''])
   \<and> find_event_end False 0 ([''package models''] @ ''type Event struct {'' # [TAB @ ''ID string'']) =
       None
   \<and> fix_calendar_event_fields
       (''package models\<newline>'' @ ''type Event struct {\<newline>'' @ TAB @ ''ID string'') =
       Inr (''package models\<newline>'' @ ''type Event struct {\<newline>'' @ TAB @ ''ID string'', [])"
  by (rule anchored_block_replaced
      [OF share_example(1) share_example(2) share_example(3) share_example(4)
          struct_example(1) struct_example(2) struct_example(3) struct_example(4)
          struct_example(5)])

lemma truncation_example_markers:
  "str_in ''targetUserID, err := uuid.Parse(req.UserID)''
     (''func share() {\<newline>'' @
      TAB @ TAB @ ''targetUserID, err := uuid.Parse(req.UserID)\<newline>'' @
      TAB @ TAB @ ''if err != nil {\<newline>'' @
      TAB @ TAB @ TAB @ ''return\<newline>'' @
      TAB @ TAB @ ''}\<newline>'' @
      TAB @ TAB @ ''use(targetUserID)\<newline>'' @
      ''}\<newline>'')"
  "\<not> str_in ''if err := h.service.ShareCalendar''
     (''func share() {\<newline>'' @
      TAB @ TAB @ ''targetUserID, err := uuid.Parse(req.UserID)\<newline>'' @
      TAB @ TAB @ ''if err != nil {\<newline>'' @
      TAB @ TAB @ TAB @ ''return\<newline>'' @
      TAB @ TAB @ ''}\<newline>'' @
      TAB @ TAB @ ''use(targetUserID)\<newline>'' @
      ''}\<newline>'')"
  by code_simp+

lemma truncation_example_run:
  "fix_handlers_calendar
     \<lparr>files = [handlers_calendar_path \<mapsto>
        ''func share() {\<newline>'' @
        TAB @ TAB @ ''targetUserID, err := uuid.Parse(req.UserID)\<newline>'' @
        TAB @ TAB @ ''if err != nil {\<newline>'' @
        TAB @ TAB @ TAB @ ''return\<newline>'' @
        TAB @ TAB @ ''}\<newline>'' @
        TAB @ TAB @ ''use(targetUserID)\<newline>'' @
        ''}\<newline>''],
      events = [], stdout = []\<rparr> =
   Returned
     \<lparr>files = [handlers_calendar_path \<mapsto>
        ''func share() {\<newline>'' @ TAB @ TAB @ ''targetUserID := req.UserID\<newline>''],
      events = [OpenRead handlers_calendar_path, OpenWrite handlers_calendar_path,
                WriteData handlers_calendar_path
                  (''func share() {\<newline>'' @ TAB @ TAB @ ''targetUserID := req.UserID\<newline>'')],
      stdout = [''Fixed '' @ handlers_calendar_path]\<rparr>"
  by (simp add: fix_handlers_calendar_def read_file_def write_file_def py_print_def
      readlines_def writelines_def rename_rsvp_request_def Let_def)

text \<open>
  C4 as stated fails: on a file in which the start marker occurs and the end marker does
  not, \<^verbatim>\<open>fix_handlers_calendar\<close> raises nothing, drops every line after the start marker
  and writes the shortened file.
\<close>

theorem missing_end_marker_counterexample:
  "str_in ''targetUserID, err := uuid.Parse(req.UserID)''
     (''func share() {\<newline>'' @
      TAB @ TAB @ ''targetUserID, err := uuid.Parse(req.UserID)\<newline>'' @
      TAB @ TAB @ ''if err != nil {\<newline>'' @
      TAB @ TAB @ TAB @ ''return\<newline>'' @
      TAB @ TAB @ ''}\<newline>'' @
      TAB @ TAB @ ''use(targetUserID)\<newline>'' @
      ''}\<newline>'')
   \<and> \<not> str_in ''if err := h.service.ShareCalendar''
     (''func share() {\<newline>'' @
      TAB @ TAB @ ''targetUserID, err := uuid.Parse(req.UserID)\<newline>'' @
      TAB @ TAB @ ''if err != nil {\<newline>'' @
      TAB @ TAB @ TAB @ ''return\<newline>'' @
      TAB @ TAB @ ''}\<newline>'' @
      TAB @ TAB @ ''use(targetUserID)\<newline>'' @
      ''}\<newline>'')
   \<and> fix_handlers_calendar
     \<lparr>files = [handlers_calendar_path \<mapsto>
        ''func share() {\<newline>'' @
        TAB @ TAB @ ''targetUserID, err := uuid.Parse(req.UserID)\<newline>'' @
        TAB @ TAB @ ''if err != nil {\<newline>'' @
        TAB @ TAB @ TAB @ ''return\<newline>'' @
        TAB @ TAB @ ''}\<newline>'' @
        TAB @ TAB @ ''use(targetUserID)\<newline>'' @
        ''}\<newline>''],
      events = [], stdout = []\<rparr> =
   Returned
     \<lparr>files = [handlers_calendar_path \<mapsto>
        ''func share() {\<newline>'' @ TAB @ TAB @ ''targetUserID := req.UserID\<newline>''],
      events = [OpenRead handlers_calendar_path, OpenWrite handlers_calendar_path,
                WriteData handlers_calendar_path
                  (''func share() {\<newline>'' @ TAB @ TAB @ ''targetUserID := req.UserID\<newline>'')],
      stdout = [''Fixed '' @ handlers_calendar_path]\<rparr>"
  by (intro conjI truncation_example_markers truncation_example_run)


section \<open>C5: exit code and error stream\<close>

lemma coredns_paths:
  "compose_path \<noteq> corefile_path" "compose_path \<noteq> zone_path" "compose_path \<noteq> example_zone_path"
  "corefile_path \<noteq> example_zone_path" "zone_path \<noteq> example_zone_path"
  "corefile_path \<noteq> zone_path"
  by code_simp+

lemma fix_compose_healthcheck_Some:
  assumes "files w compose_path = Some c"
  shows "fix_compose_healthcheck w =
       Returned (w\<lparr>files := (files w)(compose_path \<mapsto> fst (healthcheck_edit (universal_newlines c))),
                   events := events w @
                     [OpenRead compose_path, OpenWrite compose_path,
                      WriteData compose_path (fst (healthcheck_edit (universal_newlines c)))],
                   stdout := stdout w @ [snd (healthcheck_edit (universal_newlines c))]\<rparr>)"
  using assms
  by (simp add: fix_compose_healthcheck_def read_file_def write_file_def py_print_def
      Let_def split: prod.splits)

lemma healthcheck_edit_not_found:
  assumes "\<not> str_in old_healthcheck s" and "re_search healthcheck_pattern s = None"
  shows "healthcheck_edit s = (s, ''WARNING: Could not find CoreDNS healthcheck to fix'')"
  using assms by (simp add: healthcheck_edit_def re_subn1_def)

lemma fix_coredns_after_healthcheck:
  assumes "files w1 example_zone_path = Some z"
  shows "(case update_corefile w1 of
             Raised e w' \<Rightarrow> Raised e w'
           | Returned w2 \<Rightarrow>
               (case create_oonrumail_zone w2 of
                  Raised e w' \<Rightarrow> Raised e w'
                | Returned w3 \<Rightarrow>
                    (case update_example_zone w3 of
                       Raised e w' \<Rightarrow> Raised e w'
                     | Returned w4 \<Rightarrow>
                         Returned (py_print (''\<newline>'' @ ''All CoreDNS fixes applied!'') w4)))) =
     Returned (w1\<lparr>files := (files w1)(corefile_path \<mapsto> corefile, zone_path \<mapsto> zone,
                      example_zone_path \<mapsto> replace ''172.28.0.1'' SERVER_IP (universal_newlines z)),
                  events := events w1 @
                    [OpenWrite corefile_path, WriteData corefile_path corefile,
                     OpenWrite zone_path, WriteData zone_path zone,
                     OpenRead example_zone_path, OpenWrite example_zone_path,
                     WriteData example_zone_path
                       (replace ''172.28.0.1'' SERVER_IP (universal_newlines z))],
                  stdout := stdout w1 @
                    [''Updated Corefile at '' @ corefile_path,
                     ''Created zone file at '' @ zone_path,
                     ''Updated example.com zone to use '' @ SERVER_IP,
                     ''\<newline>'' @ ''All CoreDNS fixes applied!'']\<rparr>)"
  using assms coredns_paths
  by (simp add: update_corefile_def create_oonrumail_zone_def update_example_zone_def
      read_file_def write_file_def py_print_def Let_def)

lemma fix_coredns_Some:
  assumes "files w compose_path = Some c" and "files w example_zone_path = Some z"
  shows "fix_coredns w =
     Returned
       (w\<lparr>files := (files w)
            (compose_path \<mapsto> fst (healthcheck_edit (universal_newlines c)),
             corefile_path \<mapsto> corefile, zone_path \<mapsto> zone,
             example_zone_path \<mapsto> replace ''172.28.0.1'' SERVER_IP (universal_newlines z)),
          events := events w @
            [OpenRead compose_path, OpenWrite compose_path,
             WriteData compose_path (fst (healthcheck_edit (universal_newlines c))),
             OpenWrite corefile_path, WriteData corefile_path corefile,
             OpenWrite zone_path, WriteData zone_path zone,
             OpenRead example_zone_path, OpenWrite example_zone_path,
             WriteData example_zone_path
               (replace ''172.28.0.1'' SERVER_IP (universal_newlines z))],
          stdout := stdout w @
            [snd (healthcheck_edit (universal_newlines c)),
             ''Updated Corefile at '' @ corefile_path,
             ''Created zone file at '' @ zone_path,
             ''Updated example.com zone to use '' @ SERVER_IP,
             ''\<newline>'' @ ''All CoreDNS fixes applied!'']\<rparr>)"
proof -
  let ?content = "fst (healthcheck_edit (universal_newlines c))"
  let ?line = "snd (healthcheck_edit (universal_newlines c))"
  let ?w1 = "w\<lparr>files := (files w)(compose_path \<mapsto> ?content),
                   events := events w @
                     [OpenRead compose_path, OpenWrite compose_path, WriteData compose_path ?content],
                   stdout := stdout w @ [?line]\<rparr>"
  have z: "files ?w1 example_zone_path = Some z"
    using assms(2) coredns_paths by simp
  show ?thesis
    unfolding fix_coredns_def fix_compose_healthcheck_Some [OF assms(1)] run_result.case
      fix_coredns_after_healthcheck [OF z]
    by simp
qed

lemma fix_coredns_None:
  assumes "files w compose_path = None"
  shows "fix_coredns w = Raised (FileNotFoundError compose_path) w"
  using assms by (simp add: fix_coredns_def fix_compose_healthcheck_def read_file_def)

text \<open>
  C5, as amended. \<^verbatim>\<open>fix_coredns.py\<close> exits with code 0 and an empty error stream
  whenever the two files it reads exist, whether or not the healthcheck was found. When
  neither the literal block nor the regular expression matches, the run prints a WARNING
  line on standard output, writes the compose file back with the text it read (its line
  ends as \<^verbatim>\<open>open\<close> delivers them) and goes on with the other steps. It exits with a non-zero code only through an uncaught
  exception, whose traceback goes to the error stream: here, when the compose file is
  missing.
\<close>

theorem fix_coredns_exit_code:
  assumes "files w compose_path = Some c" and "files w example_zone_path = Some z"
    and "files w0 compose_path = None"
  shows "exit_code (fix_coredns w) = 0
     \<and> stderr (fix_coredns w) = []
     \<and> (\<not> str_in old_healthcheck (universal_newlines c) \<and>
          re_search healthcheck_pattern (universal_newlines c) = None \<longrightarrow>
          stdout (final_world (fix_coredns w)) =
            stdout w @
            [''WARNING: Could not find CoreDNS healthcheck to fix'',
             ''Updated Corefile at '' @ corefile_path,
             ''Created zone file at '' @ zone_path,
             ''Updated example.com zone to use '' @ SERVER_IP,
             ''\<newline>'' @ ''All CoreDNS fixes applied!'']
          \<and> final_files fix_coredns w compose_path = Some (universal_newlines c))
     \<and> exit_code (fix_coredns w0) = 1
     \<and> stderr (fix_coredns w0) =
         [''FileNotFoundError: [Errno 2] No such file or directory: '' @
          [CHR 0x27] @ compose_path @ [CHR 0x27]]"
  using coredns_paths
  by (auto simp: fix_coredns_Some [OF assms(1) assms(2)] fix_coredns_None [OF assms(3)]
      exit_code_def stderr_def final_world_def final_files_def healthcheck_edit_not_found)

text \<open>
  A compose file without any healthcheck, beside the example zone, and a world without
  files.
\<close>

lemma coredns_example_files:
  "files \<lparr>files = [compose_path \<mapsto>
              ''services:\<newline>'' @ ''  coredns:\<newline>'' @ ''    image: coredns/coredns:1.11.1\<newline>'',
             example_zone_path \<mapsto> ''mail    IN      A       172.28.0.1\<newline>''],
           events = [], stdout = []\<rparr> compose_path =
     Some (''services:\<newline>'' @ ''  coredns:\<newline>'' @ ''    image: coredns/coredns:1.11.1\<newline>'')"
  "files \<lparr>files = [compose_path \<mapsto>
              ''services:\<newline>'' @ ''  coredns:\<newline>'' @ ''    image: coredns/coredns:1.11.1\<newline>'',
             example_zone_path \<mapsto> ''mail    IN      A       172.28.0.1\<newline>''],
           events = [], stdout = []\<rparr> example_zone_path =
     Some ''mail    IN      A       172.28.0.1\<newline>''"
  "files \<lparr>files = Map.empty, events = [], stdout = []\<rparr> compose_path = None"
  by code_simp+

lemma coredns_example_not_found:
  "healthcheck_edit
     (universal_newlines
        (''services:\<newline>'' @ ''  coredns:\<newline>'' @ ''    image: coredns/coredns:1.11.1\<newline>'')) =
   (''services:\<newline>'' @ ''  coredns:\<newline>'' @ ''    image: coredns/coredns:1.11.1\<newline>'',
    ''WARNING: Could not find CoreDNS healthcheck to fix'')"
  by code_simp

theorem fix_coredns_exit_code_witness:
  "exit_code (fix_coredns
     \<lparr>files = [compose_path \<mapsto>
              ''services:\<newline>'' @ ''  coredns:\<newline>'' @ ''    image: coredns/coredns:1.11.1\<newline>'',
             example_zone_path \<mapsto> ''mail    IN      A       172.28.0.1\<newline>''],
           events = [], stdout = []\<rparr>) = 0
   \<and> exit_code (fix_coredns \<lparr>files = Map.empty, events = [], stdout = []\<rparr>) = 1"
  using fix_coredns_exit_code
    [OF coredns_example_files(1) coredns_example_files(2) coredns_example_files(3)]
  by blast

text \<open>
  C5 as stated fails: on the compose file without healthcheck the rule finds nothing,
  the run says so on standard output, and the process still ends with exit code 0 and
  nothing on the error stream.
\<close>

theorem warning_exit_zero_counterexample:
  "exit_code (fix_coredns
     \<lparr>files = [compose_path \<mapsto>
              ''services:\<newline>'' @ ''  coredns:\<newline>'' @ ''    image: coredns/coredns:1.11.1\<newline>'',
             example_zone_path \<mapsto> ''mail    IN      A       172.28.0.1\<newline>''],
           events = [], stdout = []\<rparr>) = 0
   \<and> stderr (fix_coredns
     \<lparr>files = [compose_path \<mapsto>
              ''services:\<newline>'' @ ''  coredns:\<newline>'' @ ''    image: coredns/coredns:1.11.1\<newline>'',
             example_zone_path \<mapsto> ''mail    IN      A       172.28.0.1\<newline>''],
           events = [], stdout = []\<rparr>) = []
   \<and> stdout (final_world (fix_coredns
     \<lparr>files = [compose_path \<mapsto>
              ''services:\<newline>'' @ ''  coredns:\<newline>'' @ ''    image: coredns/coredns:1.11.1\<newline>'',
             example_zone_path \<mapsto> ''mail    IN      A       172.28.0.1\<newline>''],
           events = [], stdout = []\<rparr>)) =
       [''WARNING: Could not find CoreDNS healthcheck to fix'',
        ''Updated Corefile at '' @ corefile_path,
        ''Created zone file at '' @ zone_path,
        ''Updated example.com zone to use '' @ SERVER_IP,
        ''\<newline>'' @ ''All CoreDNS fixes applied!'']"
  unfolding fix_coredns_Some [OF coredns_example_files(1) coredns_example_files(2)]
    coredns_example_not_found
  by (simp add: exit_code_def stderr_def final_world_def)

section \<open>C6: what a run reports\<close>

lemma fix_calendar2_Some:
  assumes "files w fix_calendar2_path = Some old"
  shows "fix_calendar2 w =
     Returned (w\<lparr>files := (files w)(fix_calendar2_path \<mapsto> fix_calendar2_text (universal_newlines old)),
                 events := events w @
                   [OpenRead fix_calendar2_path, OpenWrite fix_calendar2_path,
                    WriteData fix_calendar2_path (fix_calendar2_text (universal_newlines old))],
                 stdout := stdout w @ [''Fixed Reminder field names'']\<rparr>)"
  using assms by (simp add: fix_calendar2_def read_file_def write_file_def py_print_def Let_def)

lemma fix_port_text_absent:
  \<open>\<not> str_in ''addr: ":8080"'' s \<Longrightarrow> fix_port_text s = s\<close>
  by (simp add: fix_port_text_def replace_absent)

lemma fix_calendar2_text_absent:
  "\<not> str_in old_reminder_fields s \<Longrightarrow> fix_calendar2_text s = s"
  by (simp add: fix_calendar2_text_def replace_absent)

text \<open>
  C6, as amended. \<^verbatim>\<open>fix_port.py\<close> and \<^verbatim>\<open>fix_calendar2.py\<close> record no outcome. On
  every run that can read its file, each prints exactly one line, its fixed success
  message, and ends with exit code 0, whether or not its pattern occurs; when the pattern
  does not occur, the file is written back with the text that was read.
\<close>

theorem success_printed_without_match:
  \<open>(files w fix_port_path = Some old \<longrightarrow>
       exit_code (fix_port w) = 0
     \<and> stdout (final_world (fix_port w)) = stdout w @ [''Fixed!'']
     \<and> (\<not> str_in ''addr: ":8080"'' (universal_newlines old) \<longrightarrow>
          final_files fix_port w fix_port_path = Some (universal_newlines old)))
   \<and> (files w fix_calendar2_path = Some old2 \<longrightarrow>
       exit_code (fix_calendar2 w) = 0
     \<and> stdout (final_world (fix_calendar2 w)) = stdout w @ [''Fixed Reminder field names'']
     \<and> (\<not> str_in old_reminder_fields (universal_newlines old2) \<longrightarrow>
          final_files fix_calendar2 w fix_calendar2_path = Some (universal_newlines old2)))\<close>
proof (intro conjI impI)
  assume f: "files w fix_port_path = Some old"
  show "exit_code (fix_port w) = 0"
    by (simp add: fix_port_Some [OF f] exit_code_def)
  show "stdout (final_world (fix_port w)) = stdout w @ [''Fixed!'']"
    by (simp add: fix_port_Some [OF f] final_world_def)
  show "final_files fix_port w fix_port_path = Some (universal_newlines old)"
    if \<open>\<not> str_in ''addr: ":8080"'' (universal_newlines old)\<close>
    using that by (simp add: fix_port_Some [OF f] final_world_def final_files_def
        fix_port_text_absent)
next
  assume f: "files w fix_calendar2_path = Some old2"
  show "exit_code (fix_calendar2 w) = 0"
    by (simp add: fix_calendar2_Some [OF f] exit_code_def)
  show "stdout (final_world (fix_calendar2 w)) = stdout w @ [''Fixed Reminder field names'']"
    by (simp add: fix_calendar2_Some [OF f] final_world_def)
  show "final_files fix_calendar2 w fix_calendar2_path = Some (universal_newlines old2)"
    if "\<not> str_in old_reminder_fields (universal_newlines old2)"
    using that by (simp add: fix_calendar2_Some [OF f] final_world_def final_files_def
        fix_calendar2_text_absent)
qed

lemma two_files_port:
  \<open>files \<lparr>files = [fix_port_path \<mapsto> ''addr: ":9090"\<newline>'',
                     fix_calendar2_path \<mapsto> ''package service\<newline>''],
           events = [], stdout = []\<rparr> fix_port_path = Some ''addr: ":9090"\<newline>''\<close>
  by code_simp

lemma two_files_calendar:
  \<open>files \<lparr>files = [fix_port_path \<mapsto> ''addr: ":9090"\<newline>'',
                     fix_calendar2_path \<mapsto> ''package service\<newline>''],
           events = [], stdout = []\<rparr> fix_calendar2_path = Some ''package service\<newline>''\<close>
  by code_simp

lemma port_other_file:
  \<open>files \<lparr>files = [fix_port_path \<mapsto> ''addr: ":9090"\<newline>''], events = [], stdout = []\<rparr>
     fix_port_path = Some ''addr: ":9090"\<newline>''\<close>
  by simp

lemma port_other_absent:
  \<open>\<not> str_in ''addr: ":8080"'' ''addr: ":9090"\<newline>''\<close>
  by code_simp

lemma calendar_other_absent:
  "\<not> str_in old_reminder_fields ''package service\<newline>''"
  by code_simp

text \<open>The statement at a world whose two files contain neither pattern.\<close>

theorem success_printed_without_match_witness:
  \<open>stdout (final_world (fix_port
       \<lparr>files = [fix_port_path \<mapsto> ''addr: ":9090"\<newline>'',
                 fix_calendar2_path \<mapsto> ''package service\<newline>''],
        events = [], stdout = []\<rparr>)) = [''Fixed!'']
   \<and> final_files fix_port
       \<lparr>files = [fix_port_path \<mapsto> ''addr: ":9090"\<newline>'',
                 fix_calendar2_path \<mapsto> ''package service\<newline>''],
        events = [], stdout = []\<rparr> fix_port_path = Some ''addr: ":9090"\<newline>''
   \<and> stdout (final_world (fix_calendar2
       \<lparr>files = [fix_port_path \<mapsto> ''addr: ":9090"\<newline>'',
                 fix_calendar2_path \<mapsto> ''package service\<newline>''],
        events = [], stdout = []\<rparr>)) = [''Fixed Reminder field names'']
   \<and> final_files fix_calendar2
       \<lparr>files = [fix_port_path \<mapsto> ''addr: ":9090"\<newline>'',
                 fix_calendar2_path \<mapsto> ''package service\<newline>''],
        events = [], stdout = []\<rparr> fix_calendar2_path = Some ''package service\<newline>''\<close>
  using success_printed_without_match
    [of \<open>\<lparr>files = [fix_port_path \<mapsto> ''addr: ":9090"\<newline>'',
                     fix_calendar2_path \<mapsto> ''package service\<newline>''],
           events = [], stdout = []\<rparr>\<close>
        \<open>''addr: ":9090"\<newline>''\<close> \<open>''package service\<newline>''\<close>]
    two_files_port two_files_calendar port_other_absent calendar_other_absent
  by simp

text \<open>
  C6 as stated fails: on a configuration file without the pattern, \<^verbatim>\<open>fix_port.py\<close>
  completes, writes the file back unchanged and prints \<^verbatim>\<open>Fixed!\<close>.
\<close>

theorem fixed_reported_counterexample:
  \<open>\<not> str_in ''addr: ":8080"'' ''addr: ":9090"\<newline>''
   \<and> fix_port \<lparr>files = [fix_port_path \<mapsto> ''addr: ":9090"\<newline>''], events = [], stdout = []\<rparr> =
       Returned
         \<lparr>files = [fix_port_path \<mapsto> ''addr: ":9090"\<newline>''],
          events = [OpenRead fix_port_path, OpenWrite fix_port_path,
                    WriteData fix_port_path ''addr: ":9090"\<newline>''],
          stdout = [''Fixed!'']\<rparr>\<close>
  using port_other_absent fix_port_text_absent [OF port_other_absent]
  by (simp add: fix_port_Some [OF port_other_file])

section \<open>C7: order of the rules\<close>

lemma fix_webhook_fix2_keeps_prefix:
  "\<forall>l \<in> set pre. \<not> str_in ''testPayload := &models.WebhookPayload{'' l \<Longrightarrow>
     fix_webhook_fix2 (pre @ rest) = pre @ fix_webhook_fix2 rest"
  by (induction pre) simp_all

lemma replace_from_skip:
  "CHR ''s'' \<notin> set p \<Longrightarrow>
     replace_from (CHR ''s'' # t) new (p @ x) = p @ replace_from (CHR ''s'' # t) new x"
  by (induction p) auto

lemma replace_from_s_free:
  "CHR ''s'' \<notin> set q \<Longrightarrow> replace_from (CHR ''s'' # t) new q = q"
  using replace_from_skip [of q t new "[]"] by simp

lemma replace_skip:
  "CHR ''s'' \<notin> set p \<Longrightarrow>
     replace (CHR ''s'' # t) new (p @ x) = p @ replace (CHR ''s'' # t) new x"
  by (simp add: replace_def replace_from_skip)

lemma smtp_host_in_order:
  assumes "CHR ''s'' \<notin> set q"
  shows "fix_calendar5_notification (''s.config.SMTP.Host'' @ q) = ''s.config.Notification.SMTPHost'' @ q"
  using assms
  by (simp add: fix_calendar5_notification_def Let_def replace_def replace_from_s_free)

lemma smtp_host_reversed:
  assumes "CHR ''s'' \<notin> set q"
  shows "apply_in_order (rev notification_rules) (''s.config.SMTP.Host'' @ q) = ''s.config.Notification.Host'' @ q"
  using assms
  by (simp add: notification_rules_def replace_def replace_from_s_free)

lemma notification_skip:
  "CHR ''s'' \<notin> set p \<Longrightarrow>
     fix_calendar5_notification (p @ x) = p @ fix_calendar5_notification x"
  by (simp add: fix_calendar5_notification_def Let_def replace_skip)

lemma reversed_skip:
  "CHR ''s'' \<notin> set p \<Longrightarrow>
     apply_in_order (rev notification_rules) (p @ x) = p @ apply_in_order (rev notification_rules) x"
  by (simp add: notification_rules_def replace_skip)

lemma webhook_order_example:
  "fix_webhook_fix2 (fix_webhook_fix1
     (replicate 139 ''\<newline>'' @
      [TAB @ ''testPayload := &models.WebhookPayload{\<newline>'', TAB @ TAB @ ''Event: 1,\<newline>'',
       TAB @ ''}\<newline>''])) =
   replicate 139 ''\<newline>'' @ new_block_2"
  "fix_webhook_fix1 (fix_webhook_fix2
     (replicate 139 ''\<newline>'' @
      [TAB @ ''testPayload := &models.WebhookPayload{\<newline>'', TAB @ TAB @ ''Event: 1,\<newline>'',
       TAB @ ''}\<newline>''])) =
   replicate 139 ''\<newline>'' @ [TAB @ ''testPayload := &models.WebhookPayload{\<newline>''] @ new_block_1"
  by code_simp+

text \<open>
  C7. Rules are applied strictly in the order in which they are declared, and each
  matcher runs on the buffer that the rules before it have left. In
  \<^verbatim>\<open>fix_webhook.py\<close>, Fix 2 searches the lines that Fix 1 has left: it replaces from the
  first line with the marker in that buffer through the closing brace found in that
  buffer, and the lines 140 to 157 that were on disk play no part, since two files that
  agree outside them give the same result. The order shows on a file whose marker is on
  line 140 and whose closing brace is on line 142: Fix 2 after Fix 1 scans through the
  block that Fix 1 has put there, and the other order gives other lines. In
  \<^verbatim>\<open>fix_calendar5.py\<close> the five replacements are the in-order application of their
  list; between any two texts without the letter \<^verbatim>\<open>s\<close>, \<^verbatim>\<open>s.config.SMTP.Host\<close> is
  rewritten by the second rule before the fifth, catch-all rule can see it, where the
  reverse order would let the catch-all rewrite it first.
\<close>

theorem rules_applied_in_declared_order:
  assumes "fix_webhook_fix1 ls = pre @ line # rest"
    and "\<forall>l \<in> set pre. \<not> str_in ''testPayload := &models.WebhookPayload{'' l"
    and "str_in ''testPayload := &models.WebhookPayload{'' line"
    and "take 140 ls' = take 140 ls"
    and "drop 158 ls' = drop 158 ls"
    and "CHR ''s'' \<notin> set p"
    and "CHR ''s'' \<notin> set q"
  shows "fix_webhook_lines ls =
         pre @ new_block_2 @ drop (lines_to_closing_brace 1 rest + 1) rest
     \<and> fix_webhook_lines ls' = fix_webhook_lines ls
     \<and> fix_webhook_fix2 (fix_webhook_fix1
           (replicate 139 ''\<newline>'' @
            [TAB @ ''testPayload := &models.WebhookPayload{\<newline>'', TAB @ TAB @ ''Event: 1,\<newline>'',
             TAB @ ''}\<newline>''])) =
         replicate 139 ''\<newline>'' @ new_block_2
     \<and> fix_webhook_fix1 (fix_webhook_fix2
           (replicate 139 ''\<newline>'' @
            [TAB @ ''testPayload := &models.WebhookPayload{\<newline>'', TAB @ TAB @ ''Event: 1,\<newline>'',
             TAB @ ''}\<newline>''])) =
         replicate 139 ''\<newline>'' @ [TAB @ ''testPayload := &models.WebhookPayload{\<newline>''] @
         new_block_1
     \<and> fix_calendar5_notification content = apply_in_order notification_rules content
     \<and> fix_calendar5_notification (p @ ''s.config.SMTP.Host'' @ q) =
         p @ ''s.config.Notification.SMTPHost'' @ q
     \<and> apply_in_order (rev notification_rules) (p @ ''s.config.SMTP.Host'' @ q) =
         p @ ''s.config.Notification.Host'' @ q"
proof (intro conjI)
  have "fix_webhook_lines ls = fix_webhook_fix2 (pre @ line # rest)"
    by (simp add: fix_webhook_lines_def Let_def assms(1))
  also have "\<dots> = pre @ fix_webhook_fix2 (line # rest)"
    using assms(2) by (rule fix_webhook_fix2_keeps_prefix)
  also have "\<dots> = pre @ new_block_2 @ drop (lines_to_closing_brace 1 rest + 1) rest"
    using assms(3) by simp
  finally show "fix_webhook_lines ls =
      pre @ new_block_2 @ drop (lines_to_closing_brace 1 rest + 1) rest" .
  show "fix_webhook_lines ls' = fix_webhook_lines ls"
    by (simp add: fix_webhook_lines_def fix_webhook_fix1_def Let_def assms(4) assms(5))
  show "fix_calendar5_notification content = apply_in_order notification_rules content"
    by (simp add: fix_calendar5_notification_def notification_rules_def Let_def)
  show "fix_calendar5_notification (p @ ''s.config.SMTP.Host'' @ q) =
      p @ ''s.config.Notification.SMTPHost'' @ q"
    by (simp only: notification_skip [OF assms(6)] smtp_host_in_order [OF assms(7)])
  show "apply_in_order (rev notification_rules) (p @ ''s.config.SMTP.Host'' @ q) =
      p @ ''s.config.Notification.Host'' @ q"
    by (simp only: reversed_skip [OF assms(6)] smtp_host_reversed [OF assms(7)])
qed (rule webhook_order_example)+

text \<open>
  The file of the example, a second file that differs from it only after line 140, and
  a line of \<^verbatim>\<open>notification.go\<close>.
\<close>

lemma order_example_hyps:
  "fix_webhook_fix1
     (replicate 139 ''\<newline>'' @
      [TAB @ ''testPayload := &models.WebhookPayload{\<newline>'', TAB @ TAB @ ''Event: 1,\<newline>'',
       TAB @ ''}\<newline>'']) =
   replicate 139 ''\<newline>'' @ (TAB @ ''testPayload := &models.WebhookPayload{\<newline>'') # new_block_1"
  "\<forall>l \<in> set (replicate 139 ''\<newline>''). \<not> str_in ''testPayload := &models.WebhookPayload{'' l"
  "str_in ''testPayload := &models.WebhookPayload{'' (TAB @ ''testPayload := &models.WebhookPayload{\<newline>'')"
  "take 140 (replicate 139 ''\<newline>'' @ [TAB @ ''testPayload := &models.WebhookPayload{\<newline>'']) =
   take 140 (replicate 139 ''\<newline>'' @
      [TAB @ ''testPayload := &models.WebhookPayload{\<newline>'', TAB @ TAB @ ''Event: 1,\<newline>'',
       TAB @ ''}\<newline>''])"
  "drop 158 (replicate 139 ''\<newline>'' @ [TAB @ ''testPayload := &models.WebhookPayload{\<newline>'']) =
   drop 158 (replicate 139 ''\<newline>'' @
      [TAB @ ''testPayload := &models.WebhookPayload{\<newline>'', TAB @ TAB @ ''Event: 1,\<newline>'',
       TAB @ ''}\<newline>''])"
  "CHR ''s'' \<notin> set ''addr := ''"
  "CHR ''s'' \<notin> set ''\<newline>''"
  by code_simp+

text \<open>The statement at these inputs.\<close>

theorem rules_applied_in_declared_order_witness:
  "fix_webhook_lines
     (replicate 139 ''\<newline>'' @
      [TAB @ ''testPayload := &models.WebhookPayload{\<newline>'', TAB @ TAB @ ''Event: 1,\<newline>'',
       TAB @ ''}\<newline>'']) =
     replicate 139 ''\<newline>'' @ new_block_2 @
     drop (lines_to_closing_brace 1 new_block_1 + 1) new_block_1
   \<and> fix_webhook_lines (replicate 139 ''\<newline>'' @ [TAB @ ''testPayload := &models.WebhookPayload{\<newline>'']) =
     fix_webhook_lines
       (replicate 139 ''\<newline>'' @
        [TAB @ ''testPayload := &models.WebhookPayload{\<newline>'', TAB @ TAB @ ''Event: 1,\<newline>'',
         TAB @ ''}\<newline>''])
   \<and> fix_calendar5_notification (''addr := '' @ ''s.config.SMTP.Host'' @ ''\<newline>'') =
     ''addr := '' @ ''s.config.Notification.SMTPHost'' @ ''\<newline>''
   \<and> apply_in_order (rev notification_rules) (''addr := '' @ ''s.config.SMTP.Host'' @ ''\<newline>'') =
     ''addr := '' @ ''s.config.Notification.Host'' @ ''\<newline>''"
  using rules_applied_in_declared_order
    [OF order_example_hyps(1) order_example_hyps(2) order_example_hyps(3) order_example_hyps(4)
        order_example_hyps(5) order_example_hyps(6) order_example_hyps(7)]
  by blast

section \<open>C9: the duplicate-field removal of scripts/fix\_dup.py\<close>

lemma fix_dup_loop_Cons:
  "fix_dup_loop seen acc (l # ls) =
     (if reminders_line l then
        (if seen then fix_dup_loop seen acc ls else fix_dup_loop True (acc @ [l]) ls)
      else fix_dup_loop seen (acc @ [l]) ls)"
  by (simp add: reminders_line_def)

lemma fix_dup_loop_seen:
  "fix_dup_loop True acc ls = acc @ filter (\<lambda>l. \<not> reminders_line l) ls"
  by (induction ls arbitrary: acc) (simp_all add: fix_dup_loop_Cons del: fix_dup_loop.simps(2))

lemma fix_dup_loop_unseen:
  "fix_dup_loop False acc ls =
     acc @ takeWhile (\<lambda>l. \<not> reminders_line l) ls @
     (case dropWhile (\<lambda>l. \<not> reminders_line l) ls of
        [] \<Rightarrow> []
      | l # rest \<Rightarrow> l # filter (\<lambda>l. \<not> reminders_line l) rest)"
  by (induction ls arbitrary: acc)
     (simp_all add: fix_dup_loop_Cons fix_dup_loop_seen del: fix_dup_loop.simps(2))

lemma fix_dup_shape:
  "fix_dup ls =
     takeWhile (\<lambda>l. \<not> reminders_line l) ls @
     (case dropWhile (\<lambda>l. \<not> reminders_line l) ls of
        [] \<Rightarrow> []
      | l # rest \<Rightarrow> l # filter (\<lambda>l. \<not> reminders_line l) rest)"
  using fix_dup_loop_unseen [of "[]" ls] by (simp add: fix_dup_def)

lemma fix_dup_none:
  assumes "dropWhile (\<lambda>l. \<not> reminders_line l) ls = []"
  shows "fix_dup ls = ls"
proof -
  have "takeWhile (\<lambda>l. \<not> reminders_line l) ls = ls"
    using assms by (simp add: takeWhile_eq_all_conv)
  moreover have "fix_dup ls = takeWhile (\<lambda>l. \<not> reminders_line l) ls @ []"
    by (simp only: fix_dup_shape [of ls] assms list.case)
  ultimately show ?thesis by simp
qed

lemma fix_dup_some:
  assumes "dropWhile (\<lambda>l. \<not> reminders_line l) ls = l # rest"
  shows "fix_dup ls =
    takeWhile (\<lambda>l. \<not> reminders_line l) ls @ l # filter (\<lambda>l. \<not> reminders_line l) rest"
    and "reminders_line l"
    and "ls = takeWhile (\<lambda>l. \<not> reminders_line l) ls @ l # rest"
proof -
  show "fix_dup ls =
    takeWhile (\<lambda>l. \<not> reminders_line l) ls @ l # filter (\<lambda>l. \<not> reminders_line l) rest"
    by (simp only: fix_dup_shape [of ls] assms list.case)
  show "reminders_line l"
    using hd_dropWhile [of "\<lambda>l. \<not> reminders_line l" ls] assms by simp
  show "ls = takeWhile (\<lambda>l. \<not> reminders_line l) ls @ l # rest"
    using takeWhile_dropWhile_id [of "\<lambda>l. \<not> reminders_line l" ls] assms by simp
qed

lemma filter_takeWhile_neg:
  "filter (\<lambda>l. \<not> P l) (takeWhile (\<lambda>l. \<not> P l) ls) = takeWhile (\<lambda>l. \<not> P l) ls"
  by (induction ls) simp_all

lemma filter_takeWhile_none:
  "filter P (takeWhile (\<lambda>l. \<not> P l) ls) = []"
  by (induction ls) simp_all

lemma fix_dup_keeps_others:
  "filter (\<lambda>l. \<not> reminders_line l) (fix_dup ls) = filter (\<lambda>l. \<not> reminders_line l) ls"
proof (cases "dropWhile (\<lambda>l. \<not> reminders_line l) ls")
  case Nil
  then show ?thesis by (simp only: fix_dup_none)
next
  case (Cons l rest)
  note facts = fix_dup_some [OF Cons]
  have "filter (\<lambda>l. \<not> reminders_line l) ls =
      filter (\<lambda>l. \<not> reminders_line l) (takeWhile (\<lambda>l. \<not> reminders_line l) ls @ l # rest)"
    using facts(3) by simp
  also have "\<dots> = takeWhile (\<lambda>l. \<not> reminders_line l) ls @ filter (\<lambda>l. \<not> reminders_line l) rest"
    using facts(2) by (simp add: filter_takeWhile_neg)
  finally show ?thesis
    using facts(2) by (simp add: facts(1) filter_takeWhile_neg)
qed

lemma fix_dup_count:
  "length (filter reminders_line (fix_dup ls)) \<le> 1"
proof (cases "dropWhile (\<lambda>l. \<not> reminders_line l) ls")
  case Nil
  then have "\<forall>l \<in> set ls. \<not> reminders_line l"
    by (simp add: dropWhile_eq_Nil_conv)
  then have "filter reminders_line ls = []"
    by (simp add: filter_empty_conv)
  then show ?thesis by (simp add: fix_dup_none [OF Nil])
next
  case (Cons l rest)
  note facts = fix_dup_some [OF Cons]
  show ?thesis
    using facts(2) by (simp add: facts(1) filter_takeWhile_none)
qed

lemma fix_dup_idem: "fix_dup (fix_dup ls) = fix_dup ls"
proof (cases "dropWhile (\<lambda>l. \<not> reminders_line l) ls")
  case Nil
  then show ?thesis by (simp only: fix_dup_none)
next
  case (Cons l rest)
  note facts = fix_dup_some [OF Cons]
  let ?pre = "takeWhile (\<lambda>l. \<not> reminders_line l) ls"
  let ?post = "filter (\<lambda>l. \<not> reminders_line l) rest"
  have pre: "\<forall>x \<in> set ?pre. \<not> reminders_line x"
    using set_takeWhileD [of _ "\<lambda>l. \<not> reminders_line l" ls] by blast
  have tw: "takeWhile (\<lambda>l. \<not> reminders_line l) (?pre @ l # ?post) = ?pre"
    using pre facts(2) by simp
  have dw: "dropWhile (\<lambda>l. \<not> reminders_line l) (?pre @ l # ?post) = l # ?post"
    using pre facts(2) by simp
  have "fix_dup (?pre @ l # ?post) = ?pre @ l # filter (\<lambda>l. \<not> reminders_line l) ?post"
    by (simp only: fix_dup_shape [of "?pre @ l # ?post"] tw dw list.case)
  then have "fix_dup (?pre @ l # ?post) = ?pre @ l # ?post"
    by simp
  then show ?thesis by (simp only: facts(1))
qed

text \<open>
  C9. For every sequence of input lines, the pass of \<^verbatim>\<open>fix_dup.py\<close> returns the lines
  before the first line that contains both \<^verbatim>\<open>Reminders\<close> and \<^verbatim>\<open>[]Reminder\<close>, then that
  line, then the later lines that do not contain both, in their original order. The
  lines that do not contain both substrings are the same, in the same order, before and
  after; the output has at most one line containing both; and running the pass on its own
  output changes nothing.
\<close>

theorem fix_dup_keeps_first_only:
  "fix_dup ls =
     takeWhile (\<lambda>l. \<not> reminders_line l) ls @
     (case dropWhile (\<lambda>l. \<not> reminders_line l) ls of
        [] \<Rightarrow> []
      | l # rest \<Rightarrow> l # filter (\<lambda>l. \<not> reminders_line l) rest)
   \<and> filter (\<lambda>l. \<not> reminders_line l) (fix_dup ls) = filter (\<lambda>l. \<not> reminders_line l) ls
   \<and> length (filter reminders_line (fix_dup ls)) \<le> 1
   \<and> fix_dup (fix_dup ls) = fix_dup ls"
  using fix_dup_shape [of ls] fix_dup_keeps_others [of ls] fix_dup_count [of ls]
    fix_dup_idem [of ls]
  by (intro conjI)

section \<open>C10: the HTTP helper of the smoke test\<close>

text \<open>
  C10. The claim is that \<^verbatim>\<open>api\<close> returns a pair of status and body on every input and
  never lets an exception out. The code does not keep it on three paths. When the
  server answers with an HTTP error whose body is not UTF-8, \<^verbatim>\<open>decode\<close> raises inside
  the \<^verbatim>\<open>except HTTPError\<close> handler and the exception leaves \<^verbatim>\<open>api\<close>, while the same
  body on a successful response is caught and gives status 0. A URL without a scheme
  and a payload that \<^verbatim>\<open>json.dumps\<close> rejects raise before the \<^verbatim>\<open>try\<close> is entered.
\<close>

theorem api_propagates_exception:
  "api ''GET'' ''http://localhost:8082/api/auth/me'' NoData
     (RaisesHTTPError 502 (NotUtf8 ''invalid start byte'')) =
     Inl (UnicodeDecodeError ''invalid start byte'')
   \<and> api ''GET'' ''http://localhost:8082/api/auth/me'' NoData
     (Response 200 (NotUtf8 ''invalid start byte'')) = Inr (0, Raw ''invalid start byte'')
   \<and> api ''GET'' ''/api/auth/me'' NoData (Response 200 (PlainText ''ok'')) = Inl ValueError
   \<and> api ''POST'' ''http://localhost:8082/api/auth/register'' NotSerializable
       (Response 200 (PlainText ''ok'')) = Inl TypeError"
proof -
  have ok: "request_url_ok ''http://localhost:8082/api/auth/me''"
    "request_url_ok ''http://localhost:8082/api/auth/register''"
    by code_simp+
  have bad: "\<not> request_url_ok ''/api/auth/me''"
    by code_simp
  show ?thesis
    using ok bad by (simp add: api_def)
qed

end
